theory Spec2Isabelle
  imports Complex_Main "HOL-Library.Word"
begin

unbundle bit_operations_syntax

section \<open>Shared definitions of the marshaling subsystem (marshal.hpp, marshal_dec.hpp)\<close>

type_synonym u8 = "8 word"
type_synonym u16 = "16 word"
type_synonym u32 = "32 word"
type_synonym u64 = "64 word"

text \<open>\<^verbatim>\<open>using marshal_label_id_t = uint32_t\<close>, \<^verbatim>\<open>using marshal_label_info_t = uint64_t\<close>.
  Values of type \<^verbatim>\<open>size_t\<close> (offsets, counts, lengths) are natural numbers; no claim
  depends on an offset reaching \<open>2 ^ 64\<close>.\<close>

type_synonym marshal_label_id_t = u32
type_synonym marshal_label_info_t = u64

definition marshal_label_id_INVALID :: marshal_label_id_t where
  "marshal_label_id_INVALID = 0"

text \<open>\<^verbatim>\<open>constexpr size_t marshal_array_SIZE_UNKNOWN = ((size_t)-1)\<close>\<close>

definition marshal_array_SIZE_UNKNOWN :: nat where
  "marshal_array_SIZE_UNKNOWN = 2 ^ 64 - 1"

definition marshal_label_info_optional_flag :: u64 where
  "marshal_label_info_optional_flag = 0x100000000"

definition marshal_label_info_calc :: "marshal_label_id_t \<Rightarrow> bool \<Rightarrow> marshal_label_info_t" where
  "marshal_label_info_calc label_id optional =
     (if optional then marshal_label_info_optional_flag else 0) OR ucast label_id"

definition marshal_label_info_is_optional :: "marshal_label_info_t \<Rightarrow> bool" where
  "marshal_label_info_is_optional label_info \<longleftrightarrow>
     label_info AND marshal_label_info_optional_flag = marshal_label_info_optional_flag"

definition marshal_label_info_to_id :: "marshal_label_info_t \<Rightarrow> marshal_label_id_t" where
  "marshal_label_info_to_id label_info = ucast (label_info AND 0xFFFFFFFF)"

text \<open>\<^verbatim>\<open>struct marshal_label\<close>: the text of the label and its id. The id is the CRC-32 of
  the text, computed by \<^verbatim>\<open>hash_crc32.hpp\<close>; the binary codec only ever reads the id.\<close>

record marshal_label =
  m_label_text :: string
  m_label_id :: marshal_label_id_t


datatype marshal_bin_element_type =
  STRUCT | FIELD | FIELD_MISSING | ARRAY | ARRAY_ELEMENT | DICTIONARY | DICTIONARY_ELEMENT | TYPED

text \<open>Every \<^verbatim>\<open>DASTD_THROW(exception_marshal, ...)\<close> is an error value; the constructor
  tells which check of the source raised it. \<open>AssertFailed\<close> stands for a failed
  \<^verbatim>\<open>assert\<close>, \<open>OutOfBounds\<close> for a read beyond the end of a caller-supplied array.\<close>

datatype marshal_error =
    ReadFailed
  | StackEmpty
  | WrongFrame
  | BadNesting
  | TooManyBytesRead
  | InvalidOffset
  | NotExtensible
  | CountMismatch
  | BadUtf8Length
  | AssertFailed
  | OutOfBounds
  | UnexpectedToken
  | NumberOutOfRange

section \<open>Little-endian integers (endian_aware.hpp)\<close>

text \<open>\<^verbatim>\<open>native_to_little_endian\<close> writes the \<open>n\<close> bytes of an integer, least significant
  first; \<^verbatim>\<open>little_endian_to_native\<close> reads them back.\<close>

definition native_to_little_endian :: "nat \<Rightarrow> 'a::len word \<Rightarrow> u8 list" where
  "native_to_little_endian n v = map (\<lambda>i. ucast (drop_bit (8 * i) v)) [0..<n]"

fun little_endian_to_native :: "u8 list \<Rightarrow> 'a::len word" where
  "little_endian_to_native [] = 0"
| "little_endian_to_native (b # bs) = ucast b OR push_bit 8 (little_endian_to_native bs)"

section \<open>Binary decoder (marshal_dec_bin.hpp, marshal_dec_bin__inline.hpp)\<close>

text \<open>\<^verbatim>\<open>marshal_dec_bin::stack_element\<close>. The field-info array and its count are passed
  separately by the caller and are stored separately, as in the source.\<close>

record dec_stack_element =
  m_element_type :: marshal_bin_element_type
  m_extensible :: bool
  m_end_offset :: nat
  m_field_infos :: "marshal_label_info_t list"
  m_fields_count :: nat
  m_field_pos :: nat

text \<open>The five constructors of \<^verbatim>\<open>stack_element\<close>, with the defaults of the members.\<close>

definition stack_element1 :: "marshal_bin_element_type \<Rightarrow> dec_stack_element" where
  "stack_element1 t = \<lparr>m_element_type = t, m_extensible = False, m_end_offset = 0,
     m_field_infos = [], m_fields_count = 0, m_field_pos = 0\<rparr>"

definition stack_element2 :: "marshal_bin_element_type \<Rightarrow> nat \<Rightarrow> dec_stack_element" where
  "stack_element2 t fields_count = \<lparr>m_element_type = t, m_extensible = False, m_end_offset = 0,
     m_field_infos = [], m_fields_count = fields_count, m_field_pos = 0\<rparr>"

definition stack_element3 :: "marshal_bin_element_type \<Rightarrow> bool \<Rightarrow> nat \<Rightarrow> dec_stack_element" where
  "stack_element3 t extensible end_offset = \<lparr>m_element_type = t, m_extensible = extensible,
     m_end_offset = end_offset, m_field_infos = [], m_fields_count = 0, m_field_pos = 0\<rparr>"

definition stack_element5 ::
  "marshal_bin_element_type \<Rightarrow> bool \<Rightarrow> nat \<Rightarrow> marshal_label_info_t list \<Rightarrow> nat \<Rightarrow> dec_stack_element"
where
  "stack_element5 t extensible end_offset field_infos fields_count =
     \<lparr>m_element_type = t, m_extensible = extensible, m_end_offset = end_offset,
      m_field_infos = field_infos, m_fields_count = fields_count, m_field_pos = 0\<rparr>"

text \<open>The decoder: the bytes still in the source (\<^verbatim>\<open>m_input\<close> of
  \<^verbatim>\<open>marshal_dec_bin_source\<close>), the count of bytes read so far and the stack of frames
  (top of the stack first).\<close>

record marshal_dec_bin =
  m_input :: "u8 list"
  m_offset :: nat
  m_stack :: "dec_stack_element list"

type_synonym 'a dec_result = "marshal_error + ('a \<times> marshal_dec_bin)"

text \<open>\<^verbatim>\<open>read_bytes\<close>: \<^verbatim>\<open>read_bytes_impl\<close> throws when fewer than \<open>length\<close> bytes are
  available; otherwise the bytes are consumed and \<^verbatim>\<open>m_offset += length\<close>.\<close>

definition read_bytes :: "nat \<Rightarrow> marshal_dec_bin \<Rightarrow> (u8 list) dec_result" where
  "read_bytes len d =
     (if len \<le> length (m_input d)
      then Inr (take len (m_input d),
                d\<lparr>m_input := drop len (m_input d), m_offset := m_offset d + len\<rparr>)
      else Inl ReadFailed)"

text \<open>\<^verbatim>\<open>skip_bytes\<close>: \<^verbatim>\<open>skip_bytes_impl\<close> reads \<open>length\<close> single bytes and drops them.\<close>

definition skip_bytes :: "nat \<Rightarrow> marshal_dec_bin \<Rightarrow> unit dec_result" where
  "skip_bytes len d =
     (if len \<le> length (m_input d)
      then Inr ((), d\<lparr>m_input := drop len (m_input d), m_offset := m_offset d + len\<rparr>)
      else Inl ReadFailed)"


definition decode_u8 :: "marshal_dec_bin \<Rightarrow> u8 dec_result" where
  "decode_u8 d =
     (case read_bytes 1 d of
        Inl e \<Rightarrow> Inl e
      | Inr (bs, d') \<Rightarrow> Inr (little_endian_to_native bs, d'))"

definition decode_u16 :: "marshal_dec_bin \<Rightarrow> u16 dec_result" where
  "decode_u16 d =
     (case read_bytes 2 d of
        Inl e \<Rightarrow> Inl e
      | Inr (bs, d') \<Rightarrow> Inr (little_endian_to_native bs, d'))"

definition decode_u32 :: "marshal_dec_bin \<Rightarrow> u32 dec_result" where
  "decode_u32 d =
     (case read_bytes 4 d of
        Inl e \<Rightarrow> Inl e
      | Inr (bs, d') \<Rightarrow> Inr (little_endian_to_native bs, d'))"

definition decode_u64 :: "marshal_dec_bin \<Rightarrow> u64 dec_result" where
  "decode_u64 d =
     (case read_bytes 8 d of
        Inl e \<Rightarrow> Inl e
      | Inr (bs, d') \<Rightarrow> Inr (little_endian_to_native bs, d'))"

text \<open>\<^verbatim>\<open>size_t decode_size_indicator() {return (size_t)decode_u32();}\<close>\<close>

definition decode_size_indicator :: "marshal_dec_bin \<Rightarrow> nat dec_result" where
  "decode_size_indicator d =
     (case decode_u32 d of
        Inl e \<Rightarrow> Inl e
      | Inr (v, d') \<Rightarrow> Inr (unat v, d'))"

text \<open>The check at the head of every \<^verbatim>\<open>decode_*_begin\<close> of a composite: it must not be
  called directly inside a STRUCT, an ARRAY or a DICTIONARY.\<close>

definition begin_allowed :: "marshal_dec_bin \<Rightarrow> bool" where
  "begin_allowed d \<longleftrightarrow>
     (case m_stack d of
        [] \<Rightarrow> True
      | cur # _ \<Rightarrow> m_element_type cur \<noteq> STRUCT \<and> m_element_type cur \<noteq> ARRAY
                   \<and> m_element_type cur \<noteq> DICTIONARY)"

definition push :: "dec_stack_element \<Rightarrow> marshal_dec_bin \<Rightarrow> marshal_dec_bin" where
  "push el d = d\<lparr>m_stack := el # m_stack d\<rparr>"

definition pop :: "marshal_dec_bin \<Rightarrow> marshal_dec_bin" where
  "pop d = d\<lparr>m_stack := tl (m_stack d)\<rparr>"

definition decode_array_begin :: "marshal_dec_bin \<Rightarrow> nat dec_result" where
  "decode_array_begin d =
     (if \<not> begin_allowed d then Inl BadNesting
      else case decode_size_indicator d of
        Inl e \<Rightarrow> Inl e
      | Inr (no_of_elements, d') \<Rightarrow> Inr (0, push (stack_element2 ARRAY no_of_elements) d'))"

definition decode_dictionary_begin :: "marshal_dec_bin \<Rightarrow> nat dec_result" where
  "decode_dictionary_begin d =
     (if \<not> begin_allowed d then Inl BadNesting
      else case decode_size_indicator d of
        Inl e \<Rightarrow> Inl e
      | Inr (no_of_elements, d') \<Rightarrow> Inr (0, push (stack_element2 DICTIONARY no_of_elements) d'))"

text \<open>\<^verbatim>\<open>decode_array_end\<close> and \<^verbatim>\<open>decode_dictionary_end\<close>: the frame on top must be of
  the right kind and all its elements must have been extracted.\<close>

definition decode_array_end :: "marshal_dec_bin \<Rightarrow> unit dec_result" where
  "decode_array_end d =
     (case m_stack d of
        [] \<Rightarrow> Inl StackEmpty
      | cur_stack # _ \<Rightarrow>
          if m_element_type cur_stack \<noteq> ARRAY then Inl WrongFrame
          else if m_field_pos cur_stack \<noteq> m_fields_count cur_stack then Inl CountMismatch
          else Inr ((), pop d))"

definition decode_array_element_begin :: "marshal_dec_bin \<Rightarrow> bool dec_result" where
  "decode_array_element_begin d =
     (case m_stack d of
        [] \<Rightarrow> Inl StackEmpty
      | cur_stack # rest \<Rightarrow>
          if m_element_type cur_stack \<noteq> ARRAY then Inl WrongFrame
          else if m_field_pos cur_stack \<ge> m_fields_count cur_stack then Inr (False, d)
          else Inr (True,
                 d\<lparr>m_stack := stack_element1 ARRAY_ELEMENT
                       # cur_stack\<lparr>m_field_pos := m_field_pos cur_stack + 1\<rparr> # rest\<rparr>))"

definition decode_array_element_end :: "marshal_dec_bin \<Rightarrow> unit dec_result" where
  "decode_array_element_end d =
     (case m_stack d of
        [] \<Rightarrow> Inl StackEmpty
      | cur_stack # _ \<Rightarrow>
          if m_element_type cur_stack \<noteq> ARRAY_ELEMENT then Inl WrongFrame
          else Inr ((), pop d))"

definition decode_dictionary_end :: "marshal_dec_bin \<Rightarrow> unit dec_result" where
  "decode_dictionary_end d =
     (case m_stack d of
        [] \<Rightarrow> Inl StackEmpty
      | cur_stack # _ \<Rightarrow>
          if m_element_type cur_stack \<noteq> DICTIONARY then Inl WrongFrame
          else if m_field_pos cur_stack \<noteq> m_fields_count cur_stack then Inl CountMismatch
          else Inr ((), pop d))"

definition decode_dictionary_element_end :: "marshal_dec_bin \<Rightarrow> unit dec_result" where
  "decode_dictionary_element_end d =
     (case m_stack d of
        [] \<Rightarrow> Inl StackEmpty
      | cur_stack # _ \<Rightarrow>
          if m_element_type cur_stack \<noteq> DICTIONARY_ELEMENT then Inl WrongFrame
          else Inr ((), pop d))"

text \<open>\<^verbatim>\<open>decode_string_utf8\<close>: a \<^verbatim>\<open>u32\<close> length, then that many bytes.\<close>

definition decode_string_utf8 :: "marshal_dec_bin \<Rightarrow> (u8 list) dec_result" where
  "decode_string_utf8 d =
     (case decode_u32 d of
        Inl e \<Rightarrow> Inl e
      | Inr (len, d') \<Rightarrow> read_bytes (unat len) d')"

text \<open>\<^verbatim>\<open>decode_dictionary_element_begin\<close>: the position of the frame is advanced before
  the key is read; the result carries the key only when an element is available.\<close>

definition decode_dictionary_element_begin :: "marshal_dec_bin \<Rightarrow> (bool \<times> u8 list) dec_result" where
  "decode_dictionary_element_begin d =
     (case m_stack d of
        [] \<Rightarrow> Inl StackEmpty
      | cur_stack # rest \<Rightarrow>
          if m_element_type cur_stack \<noteq> DICTIONARY then Inl WrongFrame
          else if m_field_pos cur_stack \<ge> m_fields_count cur_stack then Inr ((False, []), d)
          else
            (case decode_string_utf8
                    (d\<lparr>m_stack := cur_stack\<lparr>m_field_pos := m_field_pos cur_stack + 1\<rparr> # rest\<rparr>) of
               Inl e \<Rightarrow> Inl e
             | Inr (key, d') \<Rightarrow> Inr ((True, key), push (stack_element1 DICTIONARY_ELEMENT) d')))"

subsection \<open>Structures\<close>

definition decode_struct_begin ::
  "bool \<Rightarrow> marshal_label_info_t list \<Rightarrow> nat \<Rightarrow> marshal_dec_bin \<Rightarrow> unit dec_result"
where
  "decode_struct_begin extensible field_infos fields_infos_count d =
     (if \<not> begin_allowed d then Inl BadNesting
      else case (if extensible then decode_size_indicator d else Inr (0, d)) of
        Inl e \<Rightarrow> Inl e
      | Inr (len, d') \<Rightarrow>
          Inr ((), push (stack_element5 STRUCT extensible (m_offset d' + len)
                           field_infos fields_infos_count) d'))"

definition decode_struct_end :: "marshal_dec_bin \<Rightarrow> unit dec_result" where
  "decode_struct_end d =
     (case m_stack d of
        [] \<Rightarrow> Inl StackEmpty
      | cur_stack # _ \<Rightarrow>
          if m_element_type cur_stack \<noteq> STRUCT then Inl WrongFrame
          else if m_extensible cur_stack then
            (if m_offset d < m_end_offset cur_stack then
               (case skip_bytes (m_end_offset cur_stack - m_offset d) d of
                  Inl e \<Rightarrow> Inl e
                | Inr (_, d') \<Rightarrow> Inr ((), pop d'))
             else if m_offset d > m_end_offset cur_stack then Inl TooManyBytesRead
             else Inr ((), pop d))
          else Inr ((), pop d))"



subsection \<open>Typed objects\<close>

definition decode_typed_begin :: "bool \<Rightarrow> marshal_dec_bin \<Rightarrow> marshal_label_id_t dec_result" where
  "decode_typed_begin extensible d =
     (if \<not> begin_allowed d then Inl BadNesting
      else case decode_u32 d of
        Inl e \<Rightarrow> Inl e
      | Inr (type_id, d1) \<Rightarrow>
          (case (if extensible then decode_size_indicator d1 else Inr (0, d1)) of
             Inl e \<Rightarrow> Inl e
           | Inr (len, d2) \<Rightarrow>
               Inr (type_id, push (stack_element3 TYPED extensible (m_offset d2 + len)) d2)))"

definition decode_typed_end_skip :: "marshal_dec_bin \<Rightarrow> unit dec_result" where
  "decode_typed_end_skip d =
     (case m_stack d of
        [] \<Rightarrow> Inl StackEmpty
      | cur_stack # _ \<Rightarrow>
          if m_element_type cur_stack \<noteq> TYPED then Inl WrongFrame
          else if \<not> m_extensible cur_stack then Inl NotExtensible
          else if m_offset d < m_end_offset cur_stack then
            (case skip_bytes (m_end_offset cur_stack - m_offset d) d of
               Inl e \<Rightarrow> Inl e
             | Inr (_, d') \<Rightarrow> Inr ((), pop d'))
          else if m_offset d > m_end_offset cur_stack then Inl TooManyBytesRead
          else Inr ((), pop d))"

definition decode_typed_end :: "marshal_dec_bin \<Rightarrow> unit dec_result" where
  "decode_typed_end d =
     (case m_stack d of
        [] \<Rightarrow> Inl StackEmpty
      | cur_stack # _ \<Rightarrow>
          if m_element_type cur_stack \<noteq> TYPED then Inl WrongFrame
          else if m_extensible cur_stack \<and> m_end_offset cur_stack \<noteq> m_offset d
            then Inl InvalidOffset
          else Inr ((), pop d))"

section \<open>UTF-8 (utf8.hpp, defs.hpp)\<close>

text \<open>\<^verbatim>\<open>#define DASTD_BINGET(var,fstbit,len) (((var) >> (fstbit)) & ((1<<(len))-1))\<close> and
  \<^verbatim>\<open>#define DASTD_BINSET(var,fstbit,len,value) (((var) & ~(((1<<(len))-1) << (fstbit)))|((value) << (fstbit)))\<close>,
  on 32-bit values.\<close>

definition DASTD_BINGET :: "u32 \<Rightarrow> nat \<Rightarrow> nat \<Rightarrow> u32" where
  "DASTD_BINGET var fstbit len = drop_bit fstbit var AND (push_bit len 1 - 1)"

definition DASTD_BINSET :: "u32 \<Rightarrow> nat \<Rightarrow> nat \<Rightarrow> u32 \<Rightarrow> u32" where
  "DASTD_BINSET var fstbit len v =
     (var AND NOT (push_bit fstbit (push_bit len 1 - 1))) OR push_bit fstbit v"

definition CHAR32_INVALID :: u32 where
  "CHAR32_INVALID = 0xFFFFFFFF"

definition count_utf8_following_chars :: "u8 \<Rightarrow> nat" where
  "count_utf8_following_chars ch =
     (if ch AND 0xE0 = 0xC0 then 1
      else if ch AND 0xF0 = 0xE0 then 2
      else if ch AND 0xF8 = 0xF0 then 3
      else 0)"

text \<open>\<^verbatim>\<open>write_utf8_asciiz\<close>: the bytes written before the terminating zero; their number
  is the returned \<^verbatim>\<open>written\<close>. A code point of \<^verbatim>\<open>0x10FFFF\<close> or more writes nothing.\<close>

definition write_utf8_asciiz :: "u32 \<Rightarrow> u8 list" where
  "write_utf8_asciiz code_point =
     (if code_point < 0x0080 then [ucast code_point]
      else if code_point < 0x0800 then
        [ucast (0xC0 OR DASTD_BINGET code_point 6 5),
         ucast (0x80 OR DASTD_BINGET code_point 0 6)]
      else if code_point < 0x10000 then
        [ucast (0xE0 OR DASTD_BINGET code_point 12 4),
         ucast (0x80 OR DASTD_BINGET code_point 6 6),
         ucast (0x80 OR DASTD_BINGET code_point 0 6)]
      else if code_point < 0x10FFFF then
        [ucast (0xF0 OR DASTD_BINGET code_point 18 3),
         ucast (0x80 OR DASTD_BINGET code_point 12 6),
         ucast (0x80 OR DASTD_BINGET code_point 6 6),
         ucast (0x80 OR DASTD_BINGET code_point 0 6)]
      else [])"

definition calc_utf8_length :: "u32 list \<Rightarrow> nat" where
  "calc_utf8_length string = sum_list (map (\<lambda>c. length (write_utf8_asciiz c)) string)"

text \<open>\<^verbatim>\<open>read_utf8_asciiz\<close> on a buffer of at least four bytes: the number of bytes used
  (zero for an invalid sequence) and the code point.\<close>

definition CHECK_UTF_BYTE :: "u8 list \<Rightarrow> nat \<Rightarrow> bool" where
  "CHECK_UTF_BYTE chars n \<longleftrightarrow> (chars ! n) AND 0xC0 = 0x80"

definition UTF8 :: "u8 list \<Rightarrow> nat \<Rightarrow> u32" where
  "UTF8 chars n = ucast (chars ! n)"

definition read_utf8_asciiz :: "u8 list \<Rightarrow> nat \<times> u32" where
  "read_utf8_asciiz chars =
     (if chars ! 0 = 0 then (0, CHAR32_INVALID)
      else if (chars ! 0) AND 0x80 = 0 then (1, UTF8 chars 0)
      else if (chars ! 0) AND 0xE0 = 0xC0 then
        (if \<not> CHECK_UTF_BYTE chars 1 then (0, CHAR32_INVALID)
         else (2, DASTD_BINSET (DASTD_BINSET 0 6 5 (DASTD_BINGET (UTF8 chars 0) 0 5))
                    0 6 (DASTD_BINGET (UTF8 chars 1) 0 6)))
      else if (chars ! 0) AND 0xF0 = 0xE0 then
        (if \<not> CHECK_UTF_BYTE chars 1 \<or> \<not> CHECK_UTF_BYTE chars 2 then (0, CHAR32_INVALID)
         else (3, DASTD_BINSET (DASTD_BINSET (DASTD_BINSET 0 12 4 (DASTD_BINGET (UTF8 chars 0) 0 4))
                    6 6 (DASTD_BINGET (UTF8 chars 1) 0 6))
                    0 6 (DASTD_BINGET (UTF8 chars 2) 0 6)))
      else if (chars ! 0) AND 0xF8 = 0xF0 then
        (if \<not> CHECK_UTF_BYTE chars 1 \<or> \<not> CHECK_UTF_BYTE chars 2 \<or> \<not> CHECK_UTF_BYTE chars 3
         then (0, CHAR32_INVALID)
         else (4, DASTD_BINSET (DASTD_BINSET (DASTD_BINSET (DASTD_BINSET 0 18 3
                      (DASTD_BINGET (UTF8 chars 0) 0 3))
                    12 6 (DASTD_BINGET (UTF8 chars 1) 0 6))
                    6 6 (DASTD_BINGET (UTF8 chars 2) 0 6))
                    0 6 (DASTD_BINGET (UTF8 chars 3) 0 6)))
      else (1, UTF8 chars 0))"

text \<open>\<^verbatim>\<open>marshal_dec_bin::decode_u32string\<close>. The loop
  \<^verbatim>\<open>for (i=0; i<length; i++)\<close> over the byte length: a single-byte character is pushed as
  it is; for a lead byte the continuation bytes are read into a zeroed buffer, converted by
  \<^verbatim>\<open>read_utf8_asciiz\<close>, and \<^verbatim>\<open>i += extra_chars+1\<close> is executed before the loop's own
  \<^verbatim>\<open>i++\<close>.\<close>

function decode_u32string_loop ::
  "nat \<Rightarrow> nat \<Rightarrow> u32 list \<Rightarrow> marshal_dec_bin \<Rightarrow> (u32 list) dec_result"
where
  "decode_u32string_loop len i val d =
     (if i < len then
        (case read_bytes 1 d of
           Inl e \<Rightarrow> Inl e
         | Inr (bs, d1) \<Rightarrow>
             (let ch = hd bs; extra_chars = count_utf8_following_chars ch
              in if extra_chars = 0 then decode_u32string_loop len (i + 1) (val @ [ucast ch]) d1
                 else if extra_chars > len - i then Inl BadUtf8Length
                 else
                   (case read_bytes extra_chars d1 of
                      Inl e \<Rightarrow> Inl e
                    | Inr (cont, d2) \<Rightarrow>
                        (let tmp_buf = ch # cont @ replicate (5 - extra_chars) 0;
                             r = read_utf8_asciiz tmp_buf
                         in if fst r \<noteq> extra_chars + 1 then Inl AssertFailed
                            else decode_u32string_loop len (i + (extra_chars + 1) + 1)
                                   (val @ [snd r]) d2))))
      else Inr (val, d))"
  by pat_completeness auto
termination
  by (relation "measure (\<lambda>(len, i, val, d). len - i)") auto

declare decode_u32string_loop.simps [simp del]

definition decode_u32string :: "marshal_dec_bin \<Rightarrow> (u32 list) dec_result" where
  "decode_u32string d =
     (case decode_u32 d of
        Inl e \<Rightarrow> Inl e
      | Inr (len, d') \<Rightarrow> decode_u32string_loop (unat len) 0 [] d')"

section \<open>Binary encoder (marshal_enc_bin.hpp)\<close>

text \<open>\<^verbatim>\<open>marshal_enc_bin::stack_element\<close>; the members \<^verbatim>\<open>m_element_type\<close>, \<^verbatim>\<open>m_pos\<close>
  and \<^verbatim>\<open>m_extensible\<close> carry the prefix \<open>enc_\<close> here, the decoder's frame has members of
  the same names.\<close>

record enc_stack_element =
  enc_element_type :: marshal_bin_element_type
  enc_pos :: nat
  enc_extensible :: bool

text \<open>The encoder over an output stream (\<^verbatim>\<open>marshal_enc_bin_ostream\<close>): the bytes of the
  stream, the put position and the stack of frames (top first).\<close>

record marshal_enc_bin =
  enc_output :: "u8 list"
  enc_curr_pos :: nat
  enc_stack :: "enc_stack_element list"

type_synonym enc_result = "marshal_error + marshal_enc_bin"

text \<open>\<^verbatim>\<open>write_bytes\<close> writes at the put position: it overwrites what is there and extends
  the stream at its end.\<close>

definition write_bytes :: "u8 list \<Rightarrow> marshal_enc_bin \<Rightarrow> marshal_enc_bin" where
  "write_bytes source e =
     e\<lparr>enc_output := take (enc_curr_pos e) (enc_output e) @ source
                      @ drop (enc_curr_pos e + length source) (enc_output e),
       enc_curr_pos := enc_curr_pos e + length source\<rparr>"

definition set_curr_pos :: "nat \<Rightarrow> marshal_enc_bin \<Rightarrow> marshal_enc_bin" where
  "set_curr_pos pos e = e\<lparr>enc_curr_pos := pos\<rparr>"

definition pos_diff :: "nat \<Rightarrow> nat \<Rightarrow> nat" where
  "pos_diff p1 p2 = p2 - p1"


definition encode_u8 :: "u8 \<Rightarrow> marshal_enc_bin \<Rightarrow> marshal_enc_bin" where
  "encode_u8 v e = write_bytes [v] e"

definition encode_u16 :: "u16 \<Rightarrow> marshal_enc_bin \<Rightarrow> marshal_enc_bin" where
  "encode_u16 v e = write_bytes (native_to_little_endian 2 v) e"

definition encode_u32 :: "u32 \<Rightarrow> marshal_enc_bin \<Rightarrow> marshal_enc_bin" where
  "encode_u32 v e = write_bytes (native_to_little_endian 4 v) e"

definition encode_u64 :: "u64 \<Rightarrow> marshal_enc_bin \<Rightarrow> marshal_enc_bin" where
  "encode_u64 v e = write_bytes (native_to_little_endian 8 v) e"

text \<open>\<^verbatim>\<open>void encode_size_indicator(size_t size) {encode_u32((uint32_t)size);}\<close>\<close>

definition encode_size_indicator :: "nat \<Rightarrow> marshal_enc_bin \<Rightarrow> marshal_enc_bin" where
  "encode_size_indicator sz e = encode_u32 (word_of_nat sz) e"

definition encode_string_utf8 :: "u8 list \<Rightarrow> marshal_enc_bin \<Rightarrow> marshal_enc_bin" where
  "encode_string_utf8 v e = write_bytes v (encode_u32 (word_of_nat (length v)) e)"

definition encode_u32string :: "u32 list \<Rightarrow> marshal_enc_bin \<Rightarrow> marshal_enc_bin" where
  "encode_u32string v e =
     fold (\<lambda>c. write_bytes (write_utf8_asciiz c)) v
       (encode_u32 (word_of_nat (calc_utf8_length v)) e)"


definition internal_encode_varsize_binary :: "u8 list \<Rightarrow> marshal_enc_bin \<Rightarrow> enc_result" where
  "internal_encode_varsize_binary data e =
     (if \<not> length data \<le> 2 ^ 32 - 1 then Inl AssertFailed
      else Inr (write_bytes data (encode_u32 (word_of_nat (length data)) e)))"

text \<open>The \<^verbatim>\<open>assert\<close> at the head of \<^verbatim>\<open>encode_struct_begin\<close>, \<^verbatim>\<open>encode_array_begin\<close>
  and \<^verbatim>\<open>encode_typed_begin\<close>.\<close>

definition enc_begin_allowed :: "marshal_enc_bin \<Rightarrow> bool" where
  "enc_begin_allowed e \<longleftrightarrow>
     (case enc_stack e of
        [] \<Rightarrow> True
      | cur # _ \<Rightarrow> enc_element_type cur \<noteq> STRUCT \<and> enc_element_type cur \<noteq> ARRAY)"

definition emplace :: "marshal_bin_element_type \<Rightarrow> nat \<Rightarrow> bool \<Rightarrow> marshal_enc_bin \<Rightarrow> marshal_enc_bin"
where
  "emplace t pos extensible e =
     e\<lparr>enc_stack := \<lparr>enc_element_type = t, enc_pos = pos, enc_extensible = extensible\<rparr>
                     # enc_stack e\<rparr>"

definition enc_pop :: "marshal_enc_bin \<Rightarrow> marshal_enc_bin" where
  "enc_pop e = e\<lparr>enc_stack := tl (enc_stack e)\<rparr>"


text \<open>The back-patch of the size indicator shared by \<^verbatim>\<open>encode_struct_end\<close> and
  \<^verbatim>\<open>encode_typed_end\<close>: \<^verbatim>\<open>encode_size_indicator(size-4)\<close> truncates to 32 bits.\<close>

definition patch_size_indicator :: "enc_stack_element \<Rightarrow> marshal_enc_bin \<Rightarrow> marshal_enc_bin" where
  "patch_size_indicator cur e =
     (let currpos = enc_curr_pos e;
          sz = pos_diff (enc_pos cur) currpos
      in set_curr_pos currpos
           (encode_u32 (word_of_nat sz - 4) (set_curr_pos (enc_pos cur) e)))"




definition encode_array_begin :: "nat \<Rightarrow> marshal_enc_bin \<Rightarrow> enc_result" where
  "encode_array_begin count e =
     (if \<not> enc_begin_allowed e then Inl AssertFailed
      else let e1 = encode_size_indicator count e
           in Inr (emplace ARRAY (enc_curr_pos e1) False e1))"

definition encode_array_end :: "marshal_enc_bin \<Rightarrow> enc_result" where
  "encode_array_end e =
     (case enc_stack e of
        [] \<Rightarrow> Inl AssertFailed
      | cur # _ \<Rightarrow>
          if enc_element_type cur \<noteq> ARRAY then Inl AssertFailed else Inr (enc_pop e))"

definition encode_array_element_begin :: "marshal_enc_bin \<Rightarrow> enc_result" where
  "encode_array_element_begin e =
     (case enc_stack e of
        [] \<Rightarrow> Inl AssertFailed
      | cur # _ \<Rightarrow>
          if enc_element_type cur \<noteq> ARRAY then Inl AssertFailed
          else Inr (emplace ARRAY_ELEMENT (enc_curr_pos e) False e))"

definition encode_array_element_end :: "marshal_enc_bin \<Rightarrow> enc_result" where
  "encode_array_element_end e =
     (case enc_stack e of
        [] \<Rightarrow> Inl AssertFailed
      | cur # _ \<Rightarrow>
          if enc_element_type cur \<noteq> ARRAY_ELEMENT then Inl AssertFailed else Inr (enc_pop e))"

definition encode_dictionary_begin :: "nat \<Rightarrow> marshal_enc_bin \<Rightarrow> enc_result" where
  "encode_dictionary_begin count e =
     (if \<not> (case enc_stack e of
               [] \<Rightarrow> True
             | cur # _ \<Rightarrow> enc_element_type cur \<noteq> STRUCT \<and> enc_element_type cur \<noteq> DICTIONARY)
      then Inl AssertFailed
      else let e1 = encode_size_indicator count e
           in Inr (emplace DICTIONARY (enc_curr_pos e1) False e1))"

definition encode_dictionary_end :: "marshal_enc_bin \<Rightarrow> enc_result" where
  "encode_dictionary_end e =
     (case enc_stack e of
        [] \<Rightarrow> Inl AssertFailed
      | cur # _ \<Rightarrow>
          if enc_element_type cur \<noteq> DICTIONARY then Inl AssertFailed else Inr (enc_pop e))"

definition encode_dictionary_element_begin :: "u8 list \<Rightarrow> marshal_enc_bin \<Rightarrow> enc_result" where
  "encode_dictionary_element_begin key e =
     (case enc_stack e of
        [] \<Rightarrow> Inl AssertFailed
      | cur # _ \<Rightarrow>
          if enc_element_type cur \<noteq> DICTIONARY then Inl AssertFailed
          else Inr (encode_string_utf8 key (emplace DICTIONARY_ELEMENT (enc_curr_pos e) False e)))"

definition encode_dictionary_element_end :: "marshal_enc_bin \<Rightarrow> enc_result" where
  "encode_dictionary_element_end e =
     (case enc_stack e of
        [] \<Rightarrow> Inl AssertFailed
      | cur # _ \<Rightarrow>
          if enc_element_type cur \<noteq> DICTIONARY_ELEMENT then Inl AssertFailed
          else Inr (enc_pop e))"

definition encode_typed_begin :: "marshal_label \<Rightarrow> bool \<Rightarrow> marshal_enc_bin \<Rightarrow> enc_result" where
  "encode_typed_begin label extensible e =
     (if \<not> enc_begin_allowed e then Inl AssertFailed
      else let e1 = encode_u32 (m_label_id label) e;
               e2 = emplace TYPED (enc_curr_pos e1) extensible e1
           in Inr (if extensible then encode_size_indicator 0 e2 else e2))"

definition encode_typed_end :: "marshal_enc_bin \<Rightarrow> enc_result" where
  "encode_typed_end e =
     (case enc_stack e of
        [] \<Rightarrow> Inl AssertFailed
      | cur # _ \<Rightarrow>
          if enc_element_type cur \<noteq> TYPED then Inl AssertFailed
          else Inr (enc_pop (if enc_extensible cur then patch_size_indicator cur e else e)))"

text \<open>A fresh encoder on an empty stream, and a fresh decoder on a given wire.\<close>

definition new_enc :: marshal_enc_bin where
  "new_enc = \<lparr>enc_output = [], enc_curr_pos = 0, enc_stack = []\<rparr>"

definition new_dec :: "u8 list \<Rightarrow> marshal_dec_bin" where
  "new_dec wire = \<lparr>m_input = wire, m_offset = 0, m_stack = []\<rparr>"

text \<open>Sequencing of calls: an exception of one call ends the run.\<close>

definition enc_then :: "enc_result \<Rightarrow> (marshal_enc_bin \<Rightarrow> enc_result) \<Rightarrow> enc_result" where
  "enc_then r f = (case r of Inl err \<Rightarrow> Inl err | Inr e \<Rightarrow> f e)"

section \<open>Concrete decoder and encoder states used in the examples\<close>

text \<open>The decoder after \<^verbatim>\<open>decode_array_begin\<close> on the wire \<open>03 00 00 00\<close>, and after
  \<^verbatim>\<open>decode_dictionary_begin\<close> on the same wire.\<close>

definition array_of_three :: marshal_dec_bin where
  "array_of_three = \<lparr>m_input = [], m_offset = 4, m_stack = [stack_element2 ARRAY 3]\<rparr>"

definition dictionary_of_three :: marshal_dec_bin where
  "dictionary_of_three = \<lparr>m_input = [], m_offset = 4, m_stack = [stack_element2 DICTIONARY 3]\<rparr>"


text \<open>An extensible typed frame with two bytes of payload, type id \<open>0x07363313\<close>
  (the id of the label \<^verbatim>\<open>"myField"\<close>, as \<^verbatim>\<open>marshal.hpp\<close> states it): the wire, the
  decoder after \<^verbatim>\<open>decode_typed_begin(true)\<close> with the payload unread, and the same
  situation for an extensible struct.\<close>

definition typed_frame_wire :: "u8 list" where
  "typed_frame_wire = [0x13, 0x33, 0x36, 0x07, 2, 0, 0, 0, 0xAA, 0xBB]"

definition typed_frame_unread :: marshal_dec_bin where
  "typed_frame_unread =
     \<lparr>m_input = [0xAA, 0xBB], m_offset = 8, m_stack = [stack_element3 TYPED True 10]\<rparr>"

definition struct_frame_wire :: "u8 list" where
  "struct_frame_wire = [2, 0, 0, 0, 0xAA, 0xBB]"

definition struct_frame_unread :: marshal_dec_bin where
  "struct_frame_unread =
     \<lparr>m_input = [0xAA, 0xBB], m_offset = 4, m_stack = [stack_element5 STRUCT True 6 [] 0]\<rparr>"

text \<open>The bytes of a typed frame with no child: the type id, and a size indicator of zero
  when the frame is extensible.\<close>

definition typed_null_wire :: "marshal_label_id_t \<Rightarrow> bool \<Rightarrow> u8 list" where
  "typed_null_wire label_id extensible =
     native_to_little_endian 4 label_id @ (if extensible then [0, 0, 0, 0] else [])"

definition label_myField :: marshal_label where
  "label_myField = \<lparr>m_label_text = ''myField'', m_label_id = 0x07363313\<rparr>"

text \<open>Scenario D of the specification: a non-extensible struct with the mandatory field
  \<open>id = 7\<close> (a \<^verbatim>\<open>u32\<close>) and the optional field \<open>nick\<close>, missing. The label ids are the
  CRC-32 of the names.\<close>

definition label_id :: marshal_label where
  "label_id = \<lparr>m_label_text = ''id'', m_label_id = 0xbf396750\<rparr>"







section \<open>Multi-format number (multinum.hpp)\<close>

text \<open>\<^verbatim>\<open>enum class level_t\<close>, with its numeric order (\<^verbatim>\<open>INVALID = 0\<close> to \<^verbatim>\<open>UINT64 = 3\<close>).\<close>

datatype level_t = INVALID | DOUBLE_ONLY | INT64 | UINT64

fun level_rank :: "level_t \<Rightarrow> nat" where
  "level_rank INVALID = 0"
| "level_rank DOUBLE_ONLY = 1"
| "level_rank INT64 = 2"
| "level_rank UINT64 = 3"

text \<open>A \<^verbatim>\<open>double\<close> is a finite value, an infinity or a NaN; a finite double is given by
  its exact (rational) value. The three operations \<^verbatim>\<open>set_double\<close> applies to it are
  exact on that value: \<^verbatim>\<open>std::ceil(d) == d\<close>, the comparison with
  \<^verbatim>\<open>(double)INT32_MIN\<close> and \<^verbatim>\<open>(double)INT32_MAX\<close> (both are doubles), and the cast
  \<^verbatim>\<open>(int64_t)d\<close> of a whole value in that range.\<close>

datatype f64 = Finite rat | PlusInfinity | MinusInfinity | NaN

fun f64_is_whole :: "f64 \<Rightarrow> bool" where
  "f64_is_whole (Finite q) \<longleftrightarrow> of_int \<lceil>q\<rceil> = q"
| "f64_is_whole PlusInfinity \<longleftrightarrow> True"
| "f64_is_whole MinusInfinity \<longleftrightarrow> True"
| "f64_is_whole NaN \<longleftrightarrow> False"

fun f64_in_int32 :: "f64 \<Rightarrow> bool" where
  "f64_in_int32 (Finite q) \<longleftrightarrow> - (2 ^ 31) \<le> q \<and> q \<le> 2 ^ 31 - 1"
| "f64_in_int32 PlusInfinity \<longleftrightarrow> False"
| "f64_in_int32 MinusInfinity \<longleftrightarrow> False"
| "f64_in_int32 NaN \<longleftrightarrow> False"

fun f64_to_int64 :: "f64 \<Rightarrow> u64" where
  "f64_to_int64 (Finite q) = word_of_int \<lfloor>q\<rfloor>"
| "f64_to_int64 PlusInfinity = 0"
| "f64_to_int64 MinusInfinity = 0"
| "f64_to_int64 NaN = 0"

text \<open>\<^verbatim>\<open>class multinum\<close>: the union \<^verbatim>\<open>m_value_integral\<close> is its 64 bits, read unsigned as
  \<^verbatim>\<open>u64\<close> (\<open>uint\<close>) and signed as \<^verbatim>\<open>i64\<close> (\<open>sint\<close>).\<close>

record multinum =
  m_value_double :: f64
  m_value_integral :: u64
  m_level :: level_t

definition multinum_clear :: multinum where
  "multinum_clear = \<lparr>m_value_double = Finite 0, m_value_integral = 0, m_level = INVALID\<rparr>"

definition multinum_valid :: "multinum \<Rightarrow> bool" where
  "multinum_valid m \<longleftrightarrow> level_rank (m_level m) \<ge> level_rank DOUBLE_ONLY"

definition set_double :: "f64 \<Rightarrow> multinum \<Rightarrow> multinum" where
  "set_double d m =
     (let m1 = m\<lparr>m_value_double := d, m_level := DOUBLE_ONLY\<rparr>
      in if f64_is_whole d then
           (if f64_in_int32 d then m1\<lparr>m_value_integral := f64_to_int64 d, m_level := INT64\<rparr>
            else m1)
         else m1)"

text \<open>The integral types \<^verbatim>\<open>NUMTYPE\<close> accepted by \<^verbatim>\<open>get\<close>: signedness and size in
  bytes. Values of the type are integers; a cast to a type wraps around to its width.\<close>

record numtype =
  is_signed :: bool
  size_of :: nat

definition cast_to :: "numtype \<Rightarrow> int \<Rightarrow> int" where
  "cast_to T v =
     (if is_signed T
      then (v + 2 ^ (8 * size_of T - 1)) mod 2 ^ (8 * size_of T) - 2 ^ (8 * size_of T - 1)
      else v mod 2 ^ (8 * size_of T))"

definition int64_t :: numtype where
  "int64_t = \<lparr>is_signed = True, size_of = 8\<rparr>"

definition uint64_t :: numtype where
  "uint64_t = \<lparr>is_signed = False, size_of = 8\<rparr>"

definition int32_t :: numtype where
  "int32_t = \<lparr>is_signed = True, size_of = 4\<rparr>"

text \<open>\<^verbatim>\<open>multinum::get<NUMTYPE>(min_value, max_value)\<close> for an integral \<^verbatim>\<open>NUMTYPE\<close> of at
  most 64 bits: the pair of the value and the validity flag; \<open>(0, False)\<close> is the source's
  \<^verbatim>\<open>invalid\<close>.\<close>

definition get_integral :: "numtype \<Rightarrow> int \<Rightarrow> int \<Rightarrow> multinum \<Rightarrow> int \<times> bool" where
  "get_integral T min_value max_value m =
     (if m_level m = UINT64 then
        (if is_signed T \<or> size_of T < 8 then (0, False)
         else if uint (m_value_integral m) < min_value \<or> uint (m_value_integral m) > max_value
           then (0, False)
         else (cast_to T (uint (m_value_integral m)), True))
      else if m_level m = INT64 then
        (if \<not> is_signed T \<and> size_of T \<ge> 8 then
           (if sint (m_value_integral m) < cast_to int64_t min_value then (0, False)
            else if uint (m_value_integral m) > max_value then (0, False)
            else (cast_to T (sint (m_value_integral m)), True))
         else
           (if sint (m_value_integral m) < cast_to int64_t min_value
               \<or> sint (m_value_integral m) > cast_to int64_t max_value
            then (0, False)
            else (cast_to T (sint (m_value_integral m)), True)))
      else (0, False))"

section \<open>JSON tokenizer (json_tokenizer.hpp)\<close>

datatype json_tokenizer_ret =
    C_ERROR | C_NEED_MORE_CHARS | C_NOTHING_MORE | C_SPACE
  | C_BRACE_OPEN | C_BRACE_CLOSE | C_BRACKET_OPEN | C_BRACKET_CLOSE | C_COMMA | C_COLON
  | C_TRUE | C_FALSE | C_NULL | C_STRING | C_NUMBER | C_STRING_AND_NUMBER

datatype state_t =
  IDLING | REACHED_EOF | IN_STRING | IN_NUMBER | IN_KEYWORD | IN_COMMENT | ABORTED_DUE_TO_ERROR

datatype sub_state_t =
    NORMAL
  | IN_STRING_AFTER_BACKSLASH
  | IN_STRING_READING_HEX_CHARS
  | IN_COMMENT_SLASHSTAR_DISCARD_FIRST_STAR
  | IN_COMMENT_SLASHSTAR_INSIDE
  | IN_COMMENT_SLASHSTAR_MATCHED_POTENTIAL_CLOSING_STAR
  | IN_COMMENT_SLASHSLASH

text \<open>Characters are \<^verbatim>\<open>char32_t\<close> values; \<open>c32 c\<close> is the code of the character literal
  \<open>c\<close>, and \<open>u32str s\<close> the code points of an ASCII string literal.\<close>

definition c32 :: "char \<Rightarrow> u32" where
  "c32 c = word_of_nat (of_char c)"

definition u32str :: "string \<Rightarrow> u32 list" where
  "u32str s = map c32 s"

definition CH32_EOF :: u32 where
  "CH32_EOF = 0xFFFFFFFF"

definition NUMBERS_IN_STRINGS :: u32 where
  "NUMBERS_IN_STRINGS = 1"

text \<open>\<^verbatim>\<open>class json_tokenizer_base\<close> with \<^verbatim>\<open>CHARTYPE = char32_t\<close>.\<close>

record json_tokenizer_base =
  m_raw_token :: "u32 list"
  m_string :: "u32 list"
  m_string_can_converted_to_number :: bool
  m_multinum :: multinum
  m_flags :: u32
  m_escaped_char :: u32
  m_escaped_char_remaining :: nat
  m_state :: state_t
  m_sub_state :: sub_state_t
  m_numeric_parser_state :: nat
  m_prev_char :: u32
  m_last_process_ret :: json_tokenizer_ret

text \<open>The results of the tokenizer's functions: the returned code and the tokenizer
  after the call; \<open>None\<close> when an \<^verbatim>\<open>assert\<close> of the source fails.\<close>

type_synonym tok_result = "(json_tokenizer_ret \<times> json_tokenizer_base) option"

definition is_valid_keyword_char :: "u32 \<Rightarrow> bool" where
  "is_valid_keyword_char ch32 \<longleftrightarrow>
     (ch32 \<ge> c32 CHR ''a'' \<and> ch32 \<le> c32 CHR ''z'') \<or> (ch32 \<ge> c32 CHR ''A'' \<and> ch32 \<le> c32 CHR ''Z'')
     \<or> (ch32 \<ge> c32 CHR ''0'' \<and> ch32 \<le> c32 CHR ''9'')
     \<or> ch32 = c32 CHR ''_'' \<or> ch32 = c32 CHR ''-'' \<or> ch32 = c32 CHR ''.''"

text \<open>\<^verbatim>\<open>clear()\<close> of the tokenizer: \<^verbatim>\<open>DASTD_ISSET(a,b)\<close> is \<^verbatim>\<open>(a & b) == b\<close>.\<close>

definition tok_clear :: "json_tokenizer_base \<Rightarrow> json_tokenizer_base" where
  "tok_clear tk = tk\<lparr>m_raw_token := [], m_string := [], m_multinum := multinum_clear,
     m_string_can_converted_to_number := (m_flags tk AND NUMBERS_IN_STRINGS = NUMBERS_IN_STRINGS)\<rparr>"

text \<open>The constructor \<^verbatim>\<open>json_tokenizer_base(first_char, flags)\<close>.\<close>

definition json_tokenizer :: "u32 \<Rightarrow> u32 \<Rightarrow> json_tokenizer_base" where
  "json_tokenizer first_char flags =
     tok_clear \<lparr>m_raw_token = [], m_string = [], m_string_can_converted_to_number = False,
       m_multinum = multinum_clear, m_flags = flags, m_escaped_char = 0,
       m_escaped_char_remaining = 0, m_state = IDLING, m_sub_state = NORMAL,
       m_numeric_parser_state = 0, m_prev_char = first_char,
       m_last_process_ret = C_NEED_MORE_CHARS\<rparr>"

subsection \<open>UTF-16 surrogates (utf16.hpp)\<close>

datatype utf16_char_type = utf16_NONE | utf16_FIRST | utf16_SECOND

definition detect_utf16_char :: "u16 \<Rightarrow> utf16_char_type" where
  "detect_utf16_char ch =
     (if ch AND 0xFC00 = 0xD800 then utf16_FIRST
      else if ch AND 0xFC00 = 0xDC00 then utf16_SECOND
      else utf16_NONE)"

text \<open>\<^verbatim>\<open>read_utf16_asciiz\<close> on the two-unit buffer \<open>[c0, c1]\<close> followed by a zero.\<close>

definition read_utf16_asciiz :: "u16 \<Rightarrow> u16 \<Rightarrow> nat \<times> u32" where
  "read_utf16_asciiz c0 c1 =
     (case detect_utf16_char c0 of
        utf16_NONE \<Rightarrow> (1, ucast c0)
      | utf16_FIRST \<Rightarrow>
          if detect_utf16_char c1 \<noteq> utf16_SECOND then (1, ucast c0)
          else (2, DASTD_BINSET (DASTD_BINSET 0 10 10 (DASTD_BINGET (ucast c0) 0 10))
                     0 10 (DASTD_BINGET (ucast c1) 0 10) + 0x10000)
      | utf16_SECOND \<Rightarrow> (1, ucast c0))"

text \<open>\<^verbatim>\<open>add_char_to_string\<close>: a low surrogate that follows a high surrogate replaces it by
  the combined code point; any other character is appended, and a character that cannot
  be part of a number clears \<^verbatim>\<open>m_string_can_converted_to_number\<close>.\<close>

definition number_compatible_char :: "u32 \<Rightarrow> bool" where
  "number_compatible_char ch32 \<longleftrightarrow>
     ch32 = c32 CHR '' '' \<or> (ch32 \<ge> c32 CHR ''0'' \<and> ch32 \<le> c32 CHR ''9'')
     \<or> (ch32 \<ge> c32 CHR ''A'' \<and> ch32 \<le> c32 CHR ''F'') \<or> (ch32 \<ge> c32 CHR ''a'' \<and> ch32 \<le> c32 CHR ''f'')
     \<or> ch32 = c32 CHR ''.'' \<or> ch32 = c32 CHR ''X'' \<or> ch32 = c32 CHR ''+'' \<or> ch32 = c32 CHR ''-''"

definition add_char_to_string :: "u32 \<Rightarrow> json_tokenizer_base \<Rightarrow> json_tokenizer_base" where
  "add_char_to_string ch32 tk =
     (if m_string tk \<noteq> [] \<and> ch32 < 0x10000 \<and> detect_utf16_char (ucast ch32) = utf16_SECOND
         \<and> last (m_string tk) < 0x10000
         \<and> detect_utf16_char (ucast (last (m_string tk))) = utf16_FIRST
         \<and> fst (read_utf16_asciiz (ucast (last (m_string tk))) (ucast ch32)) = 2
      then tk\<lparr>m_string := butlast (m_string tk)
                 @ [snd (read_utf16_asciiz (ucast (last (m_string tk))) (ucast ch32))]\<rparr>
      else
        (let tk1 = tk\<lparr>m_string := m_string tk @ [ch32]\<rparr>
         in if m_string_can_converted_to_number tk1 \<and> \<not> number_compatible_char ch32
            then tk1\<lparr>m_string_can_converted_to_number := False\<rparr>
            else tk1))"

subsection \<open>Strings\<close>

text \<open>The functions below take \<open>parse\<close>, the conversion \<^verbatim>\<open>multinum::parse\<close> of a lexeme,
  as a parameter: it rests on \<^verbatim>\<open>std::stod\<close> and \<^verbatim>\<open>strtointegral\<close>.\<close>

definition hex_digit :: "u32 \<Rightarrow> u32 option" where
  "hex_digit ch32 =
     (if ch32 \<ge> c32 CHR ''0'' \<and> ch32 \<le> c32 CHR ''9'' then Some (ch32 - c32 CHR ''0'')
      else if ch32 \<ge> c32 CHR ''A'' \<and> ch32 \<le> c32 CHR ''F'' then Some (ch32 - c32 CHR ''A'' + 10)
      else if ch32 \<ge> c32 CHR ''a'' \<and> ch32 \<le> c32 CHR ''f'' then Some (ch32 - c32 CHR ''a'' + 10)
      else None)"

definition process_char_string ::
  "(u32 list \<Rightarrow> multinum) \<Rightarrow> u32 \<Rightarrow> json_tokenizer_base \<Rightarrow> tok_result"
where
  "process_char_string parse ch32_curr tk =
     (if ch32_curr = CH32_EOF then Some (C_ERROR, tk\<lparr>m_state := ABORTED_DUE_TO_ERROR\<rparr>)
      else case m_sub_state tk of
        NORMAL \<Rightarrow>
          if ch32_curr = c32 CHR 0x22 then
            (let tk1 = tk\<lparr>m_state := IDLING\<rparr>
             in if m_string_can_converted_to_number tk1 then
                  (let tk2 = tk1\<lparr>m_multinum := parse (m_string tk1)\<rparr>
                   in if multinum_valid (m_multinum tk2) then Some (C_STRING_AND_NUMBER, tk2)
                      else Some (C_STRING, tk2))
                else Some (C_STRING, tk1))
          else if ch32_curr = c32 CHR 0x5C then
            Some (C_NEED_MORE_CHARS, tk\<lparr>m_sub_state := IN_STRING_AFTER_BACKSLASH\<rparr>)
          else Some (C_NEED_MORE_CHARS, add_char_to_string ch32_curr tk)
      | IN_STRING_AFTER_BACKSLASH \<Rightarrow>
          if ch32_curr = c32 CHR ''u'' then
            Some (C_NEED_MORE_CHARS,
                  tk\<lparr>m_escaped_char := 0, m_escaped_char_remaining := 4,
                     m_sub_state := IN_STRING_READING_HEX_CHARS\<rparr>)
          else
            Some (C_NEED_MORE_CHARS,
                  (add_char_to_string
                     (if ch32_curr = c32 CHR ''b'' then 0x08
                      else if ch32_curr = c32 CHR ''f'' then 0x0C
                      else if ch32_curr = c32 CHR ''n'' then 0x0A
                      else if ch32_curr = c32 CHR ''r'' then 0x0D
                      else if ch32_curr = c32 CHR ''t'' then 0x09
                      else ch32_curr) tk)\<lparr>m_sub_state := NORMAL\<rparr>)
      | IN_STRING_READING_HEX_CHARS \<Rightarrow>
          if \<not> m_escaped_char_remaining tk > 0 then None
          else
            (case hex_digit ch32_curr of
               None \<Rightarrow> Some (C_ERROR, tk\<lparr>m_state := ABORTED_DUE_TO_ERROR\<rparr>)
             | Some digit \<Rightarrow>
                 (let tk1 = tk\<lparr>m_escaped_char := push_bit 4 (m_escaped_char tk) OR digit,
                               m_escaped_char_remaining := m_escaped_char_remaining tk - 1\<rparr>
                  in if m_escaped_char_remaining tk1 = 0
                     then Some (C_NEED_MORE_CHARS,
                            (add_char_to_string (m_escaped_char tk1) tk1)\<lparr>m_sub_state := NORMAL\<rparr>)
                     else Some (C_NEED_MORE_CHARS, tk1)))
      | _ \<Rightarrow> None)"

subsection \<open>Comments\<close>

definition process_char_comment :: "u32 \<Rightarrow> json_tokenizer_base \<Rightarrow> tok_result" where
  "process_char_comment ch32_curr tk =
     (case m_sub_state tk of
        IN_COMMENT_SLASHSTAR_DISCARD_FIRST_STAR \<Rightarrow>
          if ch32_curr \<noteq> c32 CHR ''*'' then None
          else Some (C_NEED_MORE_CHARS, tk\<lparr>m_sub_state := IN_COMMENT_SLASHSTAR_INSIDE\<rparr>)
      | IN_COMMENT_SLASHSTAR_INSIDE \<Rightarrow>
          if ch32_curr = CH32_EOF then Some (C_ERROR, tk\<lparr>m_state := ABORTED_DUE_TO_ERROR\<rparr>)
          else if ch32_curr = c32 CHR ''*''
            then Some (C_NEED_MORE_CHARS,
                       tk\<lparr>m_sub_state := IN_COMMENT_SLASHSTAR_MATCHED_POTENTIAL_CLOSING_STAR\<rparr>)
          else Some (C_NEED_MORE_CHARS, tk)
      | IN_COMMENT_SLASHSTAR_MATCHED_POTENTIAL_CLOSING_STAR \<Rightarrow>
          if ch32_curr = CH32_EOF then Some (C_ERROR, tk\<lparr>m_state := ABORTED_DUE_TO_ERROR\<rparr>)
          else if ch32_curr = c32 CHR ''/''
            then Some (C_SPACE, tk\<lparr>m_sub_state := NORMAL, m_state := IDLING\<rparr>)
          else Some (C_NEED_MORE_CHARS, tk)
      | IN_COMMENT_SLASHSLASH \<Rightarrow>
          if ch32_curr = 0x0D \<or> ch32_curr = 0x0A \<or> ch32_curr = CH32_EOF
          then Some (C_SPACE, tk\<lparr>m_state := IDLING\<rparr>)
          else Some (C_NEED_MORE_CHARS, tk)
      | _ \<Rightarrow> None)"

subsection \<open>Keywords\<close>

definition process_char_keyword :: "u32 \<Rightarrow> u32 \<Rightarrow> json_tokenizer_base \<Rightarrow> tok_result" where
  "process_char_keyword ch32_curr ch32_next tk =
     (if \<not> is_valid_keyword_char ch32_curr then None
      else let tk1 = tk\<lparr>m_string := m_string tk @ [ch32_curr]\<rparr>
           in if is_valid_keyword_char ch32_next then Some (C_NEED_MORE_CHARS, tk1)
              else let tk2 = tk1\<lparr>m_state := IDLING\<rparr>
                   in if m_string tk2 = u32str ''null'' then Some (C_NULL, tk2)
                      else if m_string tk2 = u32str ''true'' then Some (C_TRUE, tk2)
                      else if m_string tk2 = u32str ''false'' then Some (C_FALSE, tk2)
                      else Some (C_STRING, tk2))"

subsection \<open>Numbers\<close>

definition json_tokenizer_numeric_ch :: "u32 \<Rightarrow> nat" where
  "json_tokenizer_numeric_ch ch32 =
     (if ch32 = c32 CHR ''-'' then 1
      else if ch32 = c32 CHR ''+'' then 2
      else if ch32 = c32 CHR ''.'' then 3
      else if ch32 = c32 CHR ''e'' then 4
      else if ch32 = c32 CHR ''E'' then 4
      else if ch32 \<ge> c32 CHR ''0'' \<and> ch32 \<le> c32 CHR ''9'' then 5
      else 0)"

text \<open>The table \<^verbatim>\<open>state_map[STATES_COUNT][EVENTS_COUNT]\<close>; \<open>255\<close> is the entry \<^verbatim>\<open>_\<close>
  (not supported) and \<open>254\<close> the entry \<^verbatim>\<open>X\<close> (terminate).\<close>

definition state_map :: "nat list list" where
  "state_map =
     [[255, 1, 255, 255, 255, 2],
      [255, 255, 255, 255, 255, 2],
      [254, 255, 255, 3, 5, 2],
      [255, 255, 255, 255, 255, 4],
      [254, 255, 255, 255, 5, 4],
      [255, 6, 6, 255, 255, 7],
      [255, 255, 255, 255, 255, 7],
      [254, 255, 255, 255, 255, 7]]"

definition process_char_number ::
  "(u32 list \<Rightarrow> multinum) \<Rightarrow> u32 \<Rightarrow> u32 \<Rightarrow> json_tokenizer_base \<Rightarrow> tok_result"
where
  "process_char_number parse ch32_curr ch32_next tk =
     (let ev_curr = json_tokenizer_numeric_ch ch32_curr;
          ev_next = json_tokenizer_numeric_ch ch32_next
      in if \<not> m_numeric_parser_state tk < 8 then None
         else let st = state_map ! m_numeric_parser_state tk ! ev_curr
              in if st = 255 \<or> st = 254 then None
                 else let tk1 = tk\<lparr>m_numeric_parser_state := st,
                                     m_string := m_string tk @ [ch32_curr]\<rparr>;
                          future_state = state_map ! st ! ev_next
                      in if future_state = 255
                           then Some (C_ERROR, tk1\<lparr>m_state := ABORTED_DUE_TO_ERROR\<rparr>)
                         else if future_state = 254 then
                           (let tk2 = tk1\<lparr>m_state := IDLING, m_multinum := parse (m_string tk1)\<rparr>
                            in if \<not> multinum_valid (m_multinum tk2)
                               then Some (C_ERROR, tk2\<lparr>m_state := ABORTED_DUE_TO_ERROR\<rparr>)
                               else Some (C_NUMBER, tk2))
                         else Some (C_NEED_MORE_CHARS, tk1))"

subsection \<open>The state machine\<close>

definition process_char_internal ::
  "(u32 list \<Rightarrow> multinum) \<Rightarrow> u32 \<Rightarrow> u32 \<Rightarrow> json_tokenizer_base \<Rightarrow> tok_result"
where
  "process_char_internal parse ch32_curr ch32_next tk =
     (case m_state tk of
        IDLING \<Rightarrow>
          (let tk0 = tk\<lparr>m_string := []\<rparr>
           in if ch32_curr = c32 CHR ''{'' then Some (C_BRACE_OPEN, tk0)
              else if ch32_curr = c32 CHR ''}'' then Some (C_BRACE_CLOSE, tk0)
              else if ch32_curr = c32 CHR ''['' then Some (C_BRACKET_OPEN, tk0)
              else if ch32_curr = c32 CHR '']'' then Some (C_BRACKET_CLOSE, tk0)
              else if ch32_curr = c32 CHR '','' then Some (C_COMMA, tk0)
              else if ch32_curr = c32 CHR '':'' then Some (C_COLON, tk0)
              else if ch32_curr = c32 CHR '' '' \<or> ch32_curr = 0x0D \<or> ch32_curr = 0x0A
                      \<or> ch32_curr = 0x09
                then Some (C_SPACE, tk0)
              else if ch32_curr = c32 CHR ''#''
                then Some (C_NEED_MORE_CHARS,
                           tk0\<lparr>m_state := IN_COMMENT, m_sub_state := IN_COMMENT_SLASHSLASH\<rparr>)
              else if ch32_curr = c32 CHR ''/'' then
                (if ch32_next = c32 CHR ''*''
                   then Some (C_NEED_MORE_CHARS,
                              tk0\<lparr>m_state := IN_COMMENT,
                                  m_sub_state := IN_COMMENT_SLASHSTAR_DISCARD_FIRST_STAR\<rparr>)
                 else if ch32_next = c32 CHR ''/''
                   then Some (C_NEED_MORE_CHARS,
                              tk0\<lparr>m_state := IN_COMMENT, m_sub_state := IN_COMMENT_SLASHSLASH\<rparr>)
                 else Some (C_ERROR, tk0\<lparr>m_state := ABORTED_DUE_TO_ERROR\<rparr>))
              else if ch32_curr = c32 CHR 0x22
                then Some (C_NEED_MORE_CHARS, tk0\<lparr>m_state := IN_STRING, m_sub_state := NORMAL\<rparr>)
              else if (ch32_curr \<ge> c32 CHR ''0'' \<and> ch32_curr \<le> c32 CHR ''9'')
                      \<or> ch32_curr = c32 CHR ''-''
                then process_char_number parse ch32_curr ch32_next
                       (tk0\<lparr>m_state := IN_NUMBER, m_sub_state := NORMAL,
                            m_numeric_parser_state := 0\<rparr>)
              else if is_valid_keyword_char ch32_curr
                then process_char_keyword ch32_curr ch32_next
                       (tk0\<lparr>m_state := IN_KEYWORD, m_sub_state := NORMAL\<rparr>)
              else Some (C_ERROR, tk0\<lparr>m_state := ABORTED_DUE_TO_ERROR\<rparr>))
      | IN_STRING \<Rightarrow> process_char_string parse ch32_curr tk
      | IN_COMMENT \<Rightarrow> process_char_comment ch32_curr tk
      | IN_KEYWORD \<Rightarrow> process_char_keyword ch32_curr ch32_next tk
      | IN_NUMBER \<Rightarrow> process_char_number parse ch32_curr ch32_next tk
      | REACHED_EOF \<Rightarrow> Some (C_NOTHING_MORE, tk)
      | ABORTED_DUE_TO_ERROR \<Rightarrow> Some (C_ERROR, tk))"

text \<open>\<^verbatim>\<open>internal_process_char\<close> and \<^verbatim>\<open>internal_process_eof\<close>; \<^verbatim>\<open>process_char\<close> and
  \<^verbatim>\<open>process_eof\<close> of \<^verbatim>\<open>class json_tokenizer\<close> call them and nothing else.\<close>

definition internal_process_char ::
  "(u32 list \<Rightarrow> multinum) \<Rightarrow> u32 \<Rightarrow> json_tokenizer_base \<Rightarrow> tok_result"
where
  "internal_process_char parse ch tk =
     (case m_state tk of
        REACHED_EOF \<Rightarrow> Some (C_NOTHING_MORE, tk\<lparr>m_last_process_ret := C_NOTHING_MORE\<rparr>)
      | _ \<Rightarrow>
          (case process_char_internal parse (m_prev_char tk) ch
                  (if m_state tk = IDLING then tok_clear tk else tk) of
             None \<Rightarrow> None
           | Some (ret, tk1) \<Rightarrow>
               Some (ret, tk1\<lparr>m_last_process_ret := ret,
                              m_raw_token := m_raw_token tk1 @ [m_prev_char tk1],
                              m_prev_char := ch\<rparr>)))"

definition internal_process_eof ::
  "(u32 list \<Rightarrow> multinum) \<Rightarrow> json_tokenizer_base \<Rightarrow> tok_result"
where
  "internal_process_eof parse tk =
     (case m_state tk of
        REACHED_EOF \<Rightarrow> Some (C_NOTHING_MORE, tk\<lparr>m_last_process_ret := C_NOTHING_MORE\<rparr>)
      | _ \<Rightarrow>
          (case process_char_internal parse (m_prev_char tk) CH32_EOF
                  (if m_state tk = IDLING then tok_clear tk else tk) of
             None \<Rightarrow> None
           | Some (ret, tk1) \<Rightarrow>
               Some (ret, tk1\<lparr>m_last_process_ret := ret,
                              m_raw_token := m_raw_token tk1 @ [m_prev_char tk1],
                              m_state := REACHED_EOF\<rparr>)))"

definition process_char ::
  "(u32 list \<Rightarrow> multinum) \<Rightarrow> u32 \<Rightarrow> json_tokenizer_base \<Rightarrow> tok_result"
where
  "process_char parse ch tk = internal_process_char parse ch tk"

definition process_eof :: "(u32 list \<Rightarrow> multinum) \<Rightarrow> json_tokenizer_base \<Rightarrow> tok_result" where
  "process_eof parse tk = internal_process_eof parse tk"

subsection \<open>The tokenizer on a source (json_tokenizer_sourced)\<close>

text \<open>The source is the list of the characters not yet read: \<^verbatim>\<open>tentative_read_char\<close>
  removes the first one, if any, and \<^verbatim>\<open>tentative_peek_char\<close> looks at the first one.\<close>

record json_tokenizer_sourced =
  m_base :: json_tokenizer_base
  m_source :: "u32 list"

definition json_tokenizer_sourced ::
  "(u32 list \<Rightarrow> multinum) \<Rightarrow> u32 list \<Rightarrow> u32 \<Rightarrow> json_tokenizer_sourced option"
where
  "json_tokenizer_sourced parse source flags =
     (case source of
        ch # _ \<Rightarrow> Some \<lparr>m_base = (json_tokenizer 0 flags)\<lparr>m_prev_char := ch\<rparr>, m_source = source\<rparr>
      | [] \<Rightarrow>
          (case internal_process_eof parse (json_tokenizer 0 flags) of
             None \<Rightarrow> None
           | Some (_, tk) \<Rightarrow> Some \<lparr>m_base = tk, m_source = source\<rparr>))"

text \<open>One round of the loop of \<^verbatim>\<open>fetch_token\<close>.\<close>

definition fetch_step ::
  "(u32 list \<Rightarrow> multinum) \<Rightarrow> json_tokenizer_sourced
     \<Rightarrow> (json_tokenizer_ret \<times> json_tokenizer_sourced) option"
where
  "fetch_step parse ts =
     (let src = tl (m_source ts)
      in case (case src of
                 ch # _ \<Rightarrow> internal_process_char parse ch (m_base ts)
               | [] \<Rightarrow> internal_process_eof parse (m_base ts)) of
           None \<Rightarrow> None
         | Some (ret, tk) \<Rightarrow> Some (ret, \<lparr>m_base = tk, m_source = src\<rparr>))"

text \<open>\<^verbatim>\<open>json_tokenizer_sourced::fetch_token\<close>: the loop runs while the result is
  \<^verbatim>\<open>C_NEED_MORE_CHARS\<close> or \<^verbatim>\<open>C_SPACE\<close>. It terminates: a round either takes a character
  from the source or, at the end of the source, leaves the tokenizer in \<^verbatim>\<open>REACHED_EOF\<close>,
  where the next round returns \<^verbatim>\<open>C_NOTHING_MORE\<close>.\<close>

lemma fetch_step_at_end:
  "fetch_step parse ts = Some (ret, ts') \<Longrightarrow> tl (m_source ts) = [] \<Longrightarrow>
     m_state (m_base ts') = REACHED_EOF \<and> m_source ts' = []
     \<and> (m_state (m_base ts) = REACHED_EOF \<longrightarrow> ret = C_NOTHING_MORE)"
  by (auto simp add: fetch_step_def internal_process_eof_def Let_def
      split: state_t.splits option.splits)

lemma fetch_step_source:
  "fetch_step parse ts = Some (ret, ts') \<Longrightarrow> m_source ts' = tl (m_source ts)"
  by (auto simp add: fetch_step_def Let_def split: option.splits list.splits)

function fetch_token ::
  "(u32 list \<Rightarrow> multinum) \<Rightarrow> json_tokenizer_sourced
     \<Rightarrow> (json_tokenizer_ret \<times> json_tokenizer_sourced) option"
where
  "fetch_token parse ts =
     (case fetch_step parse ts of
        None \<Rightarrow> None
      | Some (ret, ts') \<Rightarrow>
          if ret \<noteq> C_NEED_MORE_CHARS \<and> ret \<noteq> C_SPACE then Some (ret, ts')
          else fetch_token parse ts')"
  by pat_completeness auto
termination
  apply (relation "measure (\<lambda>(parse, ts). 2 * length (m_source ts)
                       + (if m_state (m_base ts) = REACHED_EOF then 0 else 1))")
   apply simp
  subgoal for parse ts x2 ret ts'
    apply (cases "m_source ts")
    using fetch_step_at_end [of parse ts ret ts'] fetch_step_source [of parse ts ret ts']
     apply (auto split: if_splits)
    done
  done

declare fetch_token.simps [simp del]

text \<open>A run of calls on a \<^verbatim>\<open>json_tokenizer\<close>: the list of the codes returned, in order.\<close>

datatype tok_call = ProcessChar u32 | ProcessEof

fun run_calls ::
  "(u32 list \<Rightarrow> multinum) \<Rightarrow> tok_call list \<Rightarrow> json_tokenizer_base
     \<Rightarrow> (json_tokenizer_ret list) option"
where
  "run_calls parse [] tk = Some []"
| "run_calls parse (c # cs) tk =
     (case (case c of ProcessChar ch \<Rightarrow> process_char parse ch tk | ProcessEof \<Rightarrow> process_eof parse tk) of
        None \<Rightarrow> None
      | Some (ret, tk') \<Rightarrow>
          (case run_calls parse cs tk' of None \<Rightarrow> None | Some rets \<Rightarrow> Some (ret # rets)))"

text \<open>\<open>n\<close> calls of \<^verbatim>\<open>fetch_token\<close> on a sourced tokenizer: the codes returned.\<close>

fun run_fetches ::
  "(u32 list \<Rightarrow> multinum) \<Rightarrow> nat \<Rightarrow> json_tokenizer_sourced \<Rightarrow> (json_tokenizer_ret list) option"
where
  "run_fetches parse 0 ts = Some []"
| "run_fetches parse (Suc n) ts =
     (case fetch_token parse ts of
        None \<Rightarrow> None
      | Some (ret, ts') \<Rightarrow>
          (case run_fetches parse n ts' of None \<Rightarrow> None | Some rets \<Rightarrow> Some (ret # rets)))"

section \<open>JSON decoder (marshal_dec_json.hpp, marshal_json.hpp)\<close>

text \<open>\<^verbatim>\<open>enum class marshal_json_element_type\<close>; the enumerators carry the prefix \<open>JSON_\<close>
  here, the binary codec's enumeration has the same names.\<close>

datatype marshal_json_element_type =
    JSON_STRUCT | JSON_FIELD | JSON_ARRAY | JSON_ARRAY_ELEMENT
  | JSON_DICTIONARY | JSON_DICTIONARY_ELEMENT | JSON_TYPED

datatype marshal_json_polymorphic_encoding = TYPEID_AS_FIELD_NAME | TYPEID_AS_STRUCT_FIELD

record json_stack_element =
  json_element_type :: marshal_json_element_type
  m_items_count :: nat


text \<open>\<^verbatim>\<open>class marshal_dec_json\<close>; its stack is \<open>json_stack\<close> (top first).\<close>

record marshal_dec_json =
  json_stack :: "json_stack_element list"
  m_fields_map :: "marshal_label_id_t \<rightharpoonup> u32 list"
  m_tokenizer :: json_tokenizer_sourced
  m_resubmit_prev_token :: bool
  m_polymorphic_encoding :: marshal_json_polymorphic_encoding
  m_typed_field :: "u8 list"
  m_is_typed :: bool

type_synonym 'a json_result = "marshal_error + ('a \<times> marshal_dec_json)"

text \<open>The constructor; \<open>None\<close> when the constructor of the tokenizer fails.\<close>

definition marshal_dec_json ::
  "(u32 list \<Rightarrow> multinum) \<Rightarrow> u32 list \<Rightarrow> marshal_json_polymorphic_encoding \<Rightarrow> u8 list
     \<Rightarrow> marshal_dec_json option"
where
  "marshal_dec_json parse source polymorphic_encoding typed_field =
     (case json_tokenizer_sourced parse source 0 of
        None \<Rightarrow> None
      | Some ts \<Rightarrow>
          Some \<lparr>json_stack = [], m_fields_map = Map.empty, m_tokenizer = ts,
                m_resubmit_prev_token = False, m_polymorphic_encoding = polymorphic_encoding,
                m_typed_field = typed_field, m_is_typed = False\<rparr>)"

definition get_last_process_ret :: "marshal_dec_json \<Rightarrow> json_tokenizer_ret" where
  "get_last_process_ret dj = m_last_process_ret (m_base (m_tokenizer dj))"





definition json_fetch_token ::
  "(u32 list \<Rightarrow> multinum) \<Rightarrow> marshal_dec_json \<Rightarrow> marshal_error + marshal_dec_json"
where
  "json_fetch_token parse dj =
     (if m_resubmit_prev_token dj then Inr (dj\<lparr>m_resubmit_prev_token := False\<rparr>)
      else case fetch_token parse (m_tokenizer dj) of
        None \<Rightarrow> Inl AssertFailed
      | Some (_, ts) \<Rightarrow> Inr (dj\<lparr>m_tokenizer := ts\<rparr>))"









definition json_decode_bool ::
  "(u32 list \<Rightarrow> multinum) \<Rightarrow> marshal_dec_json \<Rightarrow> bool json_result"
where
  "json_decode_bool parse dj =
     (if m_is_typed dj then Inl AssertFailed
      else case json_fetch_token parse dj of
        Inl e \<Rightarrow> Inl e
      | Inr dj1 \<Rightarrow>
          if get_last_process_ret dj1 = C_TRUE then Inr (True, dj1)
          else if get_last_process_ret dj1 = C_FALSE then Inr (False, dj1)
          else Inl UnexpectedToken)"

















section \<open>Writer and reader of an extensible struct\<close>















section \<open>Floating point numbers in the JSON encoder (marshal_enc_json.hpp)\<close>

text \<open>\<^verbatim>\<open>encode_f64\<close> is
  \<^verbatim>\<open>m_out << std::fixed << std::setprecision(std::numeric_limits<double>::max_digits10) << value\<close>.
  The inserter belongs to the C++ library, which defines it by the conversion \<^verbatim>\<open>%.pf\<close>
  of \<^verbatim>\<open>printf\<close>: the sign, the decimal digits of the integral part, the point and
  exactly \<open>p\<close> digits of the fraction, the value being rounded to \<open>p\<close> decimals (to the
  nearest, ties to even). A finite \<^verbatim>\<open>double\<close> is given by its value, a rational;
  \<^verbatim>\<open>max_digits10\<close> of \<^verbatim>\<open>double\<close> is 17.\<close>

definition max_digits10 :: nat where
  "max_digits10 = 17"

definition round_half_even :: "rat \<Rightarrow> int" where
  "round_half_even x =
     (let f = \<lfloor>x\<rfloor>; r = x - of_int f
      in if r < 1 / 2 then f else if 1 / 2 < r then f + 1 else if even f then f else f + 1)"

text \<open>The decimal digits of a natural number, and the last \<open>p\<close> decimal digits of a
  number, padded with zeros.\<close>

definition digit_char :: "nat \<Rightarrow> char" where
  "digit_char d = ''0123456789'' ! d"

function decimal_digits :: "nat \<Rightarrow> string" where
  "decimal_digits n =
     (if n < 10 then [digit_char n] else decimal_digits (n div 10) @ [digit_char (n mod 10)])"
  by pat_completeness auto
termination
  by (relation "measure id") auto

declare decimal_digits.simps [simp del]

fun fraction_digits :: "nat \<Rightarrow> nat \<Rightarrow> string" where
  "fraction_digits 0 n = []"
| "fraction_digits (Suc p) n = fraction_digits p (n div 10) @ [digit_char (n mod 10)]"

definition ostream_fixed :: "nat \<Rightarrow> rat \<Rightarrow> string" where
  "ostream_fixed p v =
     (let n = nat (round_half_even (\<bar>v\<bar> * 10 ^ p))
      in (if v < 0 then ''-'' else [])
         @ decimal_digits (n div 10 ^ p)
         @ (if p = 0 then [] else ''.'' @ fraction_digits p (n mod 10 ^ p)))"

text \<open>The members of \<^verbatim>\<open>marshal_enc_json\<close> that \<^verbatim>\<open>encode_f64\<close> uses: the text written to
  \<^verbatim>\<open>m_out\<close> and the flag \<^verbatim>\<open>m_is_typed\<close> of its \<^verbatim>\<open>assert\<close>.\<close>

record marshal_enc_json =
  enc_json_out :: string
  enc_json_is_typed :: bool

definition new_enc_json :: marshal_enc_json where
  "new_enc_json = \<lparr>enc_json_out = [], enc_json_is_typed = False\<rparr>"

definition json_encode_f64 :: "rat \<Rightarrow> marshal_enc_json \<Rightarrow> marshal_error + marshal_enc_json" where
  "json_encode_f64 v e =
     (if enc_json_is_typed e then Inl AssertFailed
      else Inr (e\<lparr>enc_json_out := enc_json_out e @ ostream_fixed max_digits10 v\<rparr>))"

section \<open>Properties of the little-endian conversion\<close>

lemma native_to_little_endian_Suc:
  "native_to_little_endian (Suc n) (v::'a::len word)
     = ucast v # native_to_little_endian n (drop_bit 8 v)"
  unfolding native_to_little_endian_def
  by (simp add: upt_conv_Cons map_Suc_upt[symmetric] add.commute del: upt_Suc)

lemma little_endian_take_bit:
  "(little_endian_to_native (native_to_little_endian n (v::'a::len word)) :: 'a word)
     = take_bit (8 * n) v"
proof (induction n arbitrary: v)
  case 0
  show ?case by (simp add: native_to_little_endian_def)
next
  case (Suc n)
  show ?case
    apply (simp add: native_to_little_endian_Suc Suc)
    apply (rule bit_word_eqI)
    apply (auto simp add: bit_simps)
    done
qed

lemma little_endian_roundtrip_u32:
  "little_endian_to_native (native_to_little_endian 4 (v::u32)) = v"
  by (simp add: little_endian_take_bit take_bit_word_eq_self)

lemma length_native_to_little_endian [simp]:
  "length (native_to_little_endian n v) = n"
  by (simp add: native_to_little_endian_def)

section \<open>Size hints of the binary decoder\<close>

lemma decode_size_indicator_three:
  "decode_size_indicator \<lparr>m_input = [3, 0, 0, 0], m_offset = 0, m_stack = []\<rparr>
     = Inr (3, \<lparr>m_input = [], m_offset = 4, m_stack = []\<rparr>)"
  by (simp add: decode_size_indicator_def decode_u32_def read_bytes_def)

text \<open>C10. Whenever \<^verbatim>\<open>marshal_dec_bin::decode_array_begin\<close> or
  \<^verbatim>\<open>marshal_dec_bin::decode_dictionary_begin\<close> returns, the value returned is 0: it is
  not the element count read from the wire, which is only stored in the new frame, and it
  is not \<^verbatim>\<open>marshal_array_SIZE_UNKNOWN\<close>.\<close>

theorem decode_begin_size_hint_is_zero:
  "(decode_array_begin d = Inr (r, d') \<longrightarrow>
      r = 0 \<and> r \<noteq> marshal_array_SIZE_UNKNOWN \<and>
      (\<exists>n d1. decode_size_indicator d = Inr (n, d1) \<and> d' = push (stack_element2 ARRAY n) d1))
   \<and> (decode_dictionary_begin dd = Inr (rd, dd') \<longrightarrow>
      rd = 0 \<and> rd \<noteq> marshal_array_SIZE_UNKNOWN \<and>
      (\<exists>n d1. decode_size_indicator dd = Inr (n, d1)
         \<and> dd' = push (stack_element2 DICTIONARY n) d1))"
  by (auto simp add: decode_array_begin_def decode_dictionary_begin_def
        marshal_array_SIZE_UNKNOWN_def split: if_splits sum.splits)

theorem decode_begin_size_hint_is_zero_witness:
  "decode_array_begin (new_dec [3, 0, 0, 0]) = Inr (0, array_of_three)
   \<and> decode_dictionary_begin (new_dec [3, 0, 0, 0]) = Inr (0, dictionary_of_three)
   \<and> m_fields_count (hd (m_stack array_of_three)) = 3
   \<and> m_fields_count (hd (m_stack dictionary_of_three)) = 3
   \<and> (0::nat) \<noteq> marshal_array_SIZE_UNKNOWN"
  using decode_begin_size_hint_is_zero
    [of "new_dec [3, 0, 0, 0]" 0 array_of_three "new_dec [3, 0, 0, 0]" 0 dictionary_of_three]
  by (simp add: decode_array_begin_def decode_dictionary_begin_def begin_allowed_def new_dec_def
        decode_size_indicator_three push_def array_of_three_def dictionary_of_three_def
        stack_element2_def)

section \<open>Helper facts about reading and writing bytes\<close>

lemma native_to_little_endian_zero: "native_to_little_endian 4 (0::u32) = [0, 0, 0, 0]"
  by (simp add: native_to_little_endian_def upt_rec)

lemma read_bytes_append:
  "m_input d = bs @ rest \<Longrightarrow> read_bytes (length bs) d
     = Inr (bs, d\<lparr>m_input := rest, m_offset := m_offset d + length bs\<rparr>)"
  by (simp add: read_bytes_def)

lemma decode_u32_append:
  "m_input d = native_to_little_endian 4 (v::u32) @ rest \<Longrightarrow>
   decode_u32 d = Inr (v, d\<lparr>m_input := rest, m_offset := m_offset d + 4\<rparr>)"
  using read_bytes_append [of d "native_to_little_endian 4 v" rest]
  by (simp add: decode_u32_def little_endian_roundtrip_u32)

lemma decode_u32_bytes:
  "decode_u32 \<lparr>m_input = a # b # c # d # rest, m_offset = off, m_stack = st\<rparr>
   = Inr (little_endian_to_native [a, b, c, d],
          \<lparr>m_input = rest, m_offset = off + 4, m_stack = st\<rparr>)"
  by (simp add: decode_u32_def read_bytes_def)

section \<open>End of an extensible typed frame\<close>

text \<open>C3, the claim as stated fails. On the wire of an extensible typed frame with two
  bytes of payload, \<^verbatim>\<open>decode_typed_begin(true)\<close> leaves the offset (8) strictly below the
  recorded end offset (10); \<^verbatim>\<open>decode_typed_end\<close> then raises the error "invalid offset"
  instead of skipping the two bytes, whereas \<^verbatim>\<open>decode_struct_end\<close> in the same
  situation skips them.\<close>

theorem decode_typed_end_unread_counterexample:
  "decode_typed_begin True (new_dec typed_frame_wire) = Inr (0x07363313, typed_frame_unread)
   \<and> m_extensible (hd (m_stack typed_frame_unread))
   \<and> m_offset typed_frame_unread < m_end_offset (hd (m_stack typed_frame_unread))
   \<and> decode_typed_end typed_frame_unread = Inl InvalidOffset
   \<and> decode_struct_begin True [] 0 (new_dec struct_frame_wire) = Inr ((), struct_frame_unread)
   \<and> decode_struct_end struct_frame_unread
       = Inr ((), \<lparr>m_input = [], m_offset = 6, m_stack = []\<rparr>)"
  by (simp add: decode_typed_begin_def begin_allowed_def new_dec_def typed_frame_wire_def
      decode_u32_bytes decode_size_indicator_def typed_frame_unread_def push_def
      stack_element3_def decode_typed_end_def decode_struct_end_def struct_frame_unread_def
      stack_element5_def skip_bytes_def pop_def decode_struct_begin_def struct_frame_wire_def)

text \<open>C3, amended. On an extensible typed frame \<^verbatim>\<open>decode_typed_end\<close> pops the frame
  exactly when the offset equals the recorded end offset, and raises an error whenever it
  differs, below as well as above. The skip of the remaining bytes is what
  \<^verbatim>\<open>decode_typed_end_skip\<close> does: below the end offset it skips up to it (an error if
  the source is shorter), above it raises an error, at it just pops the frame.\<close>

theorem decode_typed_end_exact_offset:
  assumes "m_stack d = cur # rest" and "m_element_type cur = TYPED" and "m_extensible cur"
  shows "decode_typed_end d =
           (if m_offset d = m_end_offset cur then Inr ((), pop d) else Inl InvalidOffset)
       \<and> decode_typed_end_skip d =
           (if m_offset d < m_end_offset cur then
              (if m_end_offset cur - m_offset d \<le> length (m_input d)
               then Inr ((), \<lparr>m_input = drop (m_end_offset cur - m_offset d) (m_input d),
                               m_offset = m_end_offset cur, m_stack = rest\<rparr>)
               else Inl ReadFailed)
            else if m_offset d > m_end_offset cur then Inl TooManyBytesRead
            else Inr ((), pop d))"
  using assms
  by (auto simp add: decode_typed_end_def decode_typed_end_skip_def skip_bytes_def pop_def)

theorem decode_typed_end_exact_offset_witness:
  "decode_typed_end typed_frame_unread = Inl InvalidOffset
   \<and> decode_typed_end_skip typed_frame_unread
       = Inr ((), \<lparr>m_input = [], m_offset = 10, m_stack = []\<rparr>)"
  using decode_typed_end_exact_offset
    [of typed_frame_unread "stack_element3 TYPED True 10" "[]"]
  by (simp add: typed_frame_unread_def stack_element3_def)

section \<open>Typed frame without a child\<close>

text \<open>C5, the claim as stated fails for the binary codec. The typed frame
  \<^verbatim>\<open>encode_typed_begin(dastd_marshal_label("myField"), false)\<close>, \<^verbatim>\<open>encode_typed_end()\<close>
  is the four bytes of the label id, and \<^verbatim>\<open>decode_typed_begin(false)\<close> on them returns
  that id, not \<^verbatim>\<open>marshal_label_id_INVALID\<close>.\<close>

theorem typed_null_counterexample:
  "enc_then (encode_typed_begin label_myField False new_enc) encode_typed_end
     = Inr \<lparr>enc_output = [0x13, 0x33, 0x36, 0x07], enc_curr_pos = 4, enc_stack = []\<rparr>
   \<and> decode_typed_begin False (new_dec [0x13, 0x33, 0x36, 0x07])
     = Inr (0x07363313, \<lparr>m_input = [], m_offset = 4, m_stack = [stack_element3 TYPED False 4]\<rparr>)
   \<and> (0x07363313 :: marshal_label_id_t) \<noteq> marshal_label_id_INVALID"
  by (simp add: enc_then_def encode_typed_begin_def enc_begin_allowed_def new_enc_def
      label_myField_def encode_u32_def write_bytes_def native_to_little_endian_def upt_rec
      emplace_def encode_typed_end_def enc_pop_def decode_typed_begin_def begin_allowed_def
      new_dec_def decode_u32_bytes push_def marshal_label_id_INVALID_def)

text \<open>C5, amended (binary codec). A typed frame opened with a label and closed at once is
  encoded as the label id, followed by a zero size indicator when extensible; decoding
  these bytes, \<^verbatim>\<open>decode_typed_begin\<close> returns the id of that label (so the invalid id
  only for a label whose id is 0), and \<^verbatim>\<open>decode_typed_end\<close> then closes the frame.\<close>

theorem typed_null_decodes_to_label_id:
  assumes "enc_begin_allowed e" and "enc_curr_pos e = length (enc_output e)"
    and "begin_allowed d" and "m_input d = typed_null_wire (m_label_id label) extensible @ rest"
  shows "enc_then (encode_typed_begin label extensible e) encode_typed_end
           = Inr (e\<lparr>enc_output := enc_output e @ typed_null_wire (m_label_id label) extensible,
                    enc_curr_pos := length (enc_output e)
                       + length (typed_null_wire (m_label_id label) extensible)\<rparr>)
         \<and> (\<exists>d'. decode_typed_begin extensible d = Inr (m_label_id label, d')
               \<and> m_input d' = rest
               \<and> decode_typed_end d' = Inr ((), d'\<lparr>m_stack := m_stack d\<rparr>))"
proof (cases extensible)
  case True
  have enc: "enc_then (encode_typed_begin label True e) encode_typed_end
           = Inr (e\<lparr>enc_output := enc_output e @ typed_null_wire (m_label_id label) True,
                    enc_curr_pos := length (enc_output e)
                       + length (typed_null_wire (m_label_id label) True)\<rparr>)"
    using assms(1,2)
    by (simp add: enc_then_def encode_typed_begin_def encode_typed_end_def encode_u32_def
        encode_size_indicator_def emplace_def enc_pop_def patch_size_indicator_def pos_diff_def
        set_curr_pos_def write_bytes_def typed_null_wire_def native_to_little_endian_zero)
  have dec: "\<exists>d'. decode_typed_begin True d = Inr (m_label_id label, d')
               \<and> m_input d' = rest
               \<and> decode_typed_end d' = Inr ((), d'\<lparr>m_stack := m_stack d\<rparr>)"
    using assms(3,4) True
      decode_u32_append [of d "m_label_id label" "[0,0,0,0] @ rest"]
      decode_u32_append [of "d\<lparr>m_input := [0,0,0,0] @ rest, m_offset := m_offset d + 4\<rparr>" 0 rest]
    by (simp add: decode_typed_begin_def decode_size_indicator_def typed_null_wire_def
        native_to_little_endian_zero push_def stack_element3_def decode_typed_end_def pop_def)
  show ?thesis using enc dec True by simp
next
  case False
  have enc: "enc_then (encode_typed_begin label False e) encode_typed_end
           = Inr (e\<lparr>enc_output := enc_output e @ typed_null_wire (m_label_id label) False,
                    enc_curr_pos := length (enc_output e)
                       + length (typed_null_wire (m_label_id label) False)\<rparr>)"
    using assms(1,2)
    by (simp add: enc_then_def encode_typed_begin_def encode_typed_end_def encode_u32_def
        emplace_def enc_pop_def write_bytes_def typed_null_wire_def)
  have dec: "\<exists>d'. decode_typed_begin False d = Inr (m_label_id label, d')
               \<and> m_input d' = rest
               \<and> decode_typed_end d' = Inr ((), d'\<lparr>m_stack := m_stack d\<rparr>)"
    using assms(3,4) False
      decode_u32_append [of d "m_label_id label" "rest"]
    by (simp add: decode_typed_begin_def typed_null_wire_def
        push_def stack_element3_def decode_typed_end_def pop_def)
  show ?thesis using enc dec False by simp
qed

theorem typed_null_decodes_to_label_id_witness:
  "enc_then (encode_typed_begin label_myField True new_enc) encode_typed_end
     = Inr \<lparr>enc_output = [0x13, 0x33, 0x36, 0x07, 0, 0, 0, 0], enc_curr_pos = 8, enc_stack = []\<rparr>
   \<and> (\<exists>d'. decode_typed_begin True (new_dec [0x13, 0x33, 0x36, 0x07, 0, 0, 0, 0])
              = Inr (0x07363313, d')
          \<and> m_input d' = []
          \<and> decode_typed_end d' = Inr ((), d'\<lparr>m_stack := []\<rparr>))"
  using typed_null_decodes_to_label_id
    [of new_enc "new_dec [0x13, 0x33, 0x36, 0x07, 0, 0, 0, 0]" label_myField True "[]"]
  by (simp add: enc_begin_allowed_def begin_allowed_def new_enc_def new_dec_def
      label_myField_def typed_null_wire_def native_to_little_endian_def upt_rec)

section \<open>Optional fields of the binary codec\<close>



section \<open>Integral queries on a double-only multinum\<close>

text \<open>C6. For every multinum whose level is double-only, \<^verbatim>\<open>get<T>(min, max)\<close> fails for
  every integral type \<open>T\<close> and every range: a double-only value never satisfies an
  integral request (so in particular it fails unless the double is an exact integer in
  range). \<^verbatim>\<open>set_double\<close> leaves the level double-only exactly for the doubles that are not
  whole numbers of the 32-bit signed range; a whole double outside it, such as \<open>2 ^ 40\<close>,
  stays double-only and fails \<^verbatim>\<open>get<int64_t>\<close> although it is an exact integer in range
  for \<^verbatim>\<open>int64_t\<close>.\<close>

theorem double_only_fails_integral_get:
  assumes "m_level m = DOUBLE_ONLY"
  shows "get_integral T min_value max_value m = (0, False)
     \<and> (m_level (set_double d m0) = DOUBLE_ONLY \<longleftrightarrow> \<not> (f64_is_whole d \<and> f64_in_int32 d))
     \<and> get_integral int64_t (- (2 ^ 63)) (2 ^ 63 - 1) (set_double (Finite (2 ^ 40)) m0)
         = (0, False)"
  using assms by (simp add: get_integral_def set_double_def Let_def)

theorem double_only_fails_integral_get_witness:
  "m_level (set_double (Finite (2 ^ 40)) multinum_clear) = DOUBLE_ONLY
   \<and> f64_is_whole (Finite (2 ^ 40))
   \<and> get_integral int64_t (- (2 ^ 63)) (2 ^ 63 - 1) (set_double (Finite (2 ^ 40)) multinum_clear)
       = (0, False)
   \<and> get_integral uint64_t 0 (2 ^ 64 - 1) (set_double (Finite (2 ^ 40)) multinum_clear)
       = (0, False)
   \<and> get_integral int32_t (- (2 ^ 31)) (2 ^ 31 - 1) (set_double (Finite (3 / 2)) multinum_clear)
       = (0, False)
   \<and> get_integral int64_t (- (2 ^ 63)) (2 ^ 63 - 1) (set_double (Finite 5) multinum_clear)
       = (5, True)"
proof -
  have l: "m_level (set_double (Finite (2 ^ 40)) multinum_clear) = DOUBLE_ONLY"
    by (simp add: set_double_def Let_def)
  have c: "\<lceil>(3::rat) / 2\<rceil> = 2"
    by (rule ceiling_unique) simp_all
  have l2: "m_level (set_double (Finite (3 / 2)) multinum_clear) = DOUBLE_ONLY"
    by (simp add: set_double_def Let_def c)
  have w: "f64_is_whole (Finite (2 ^ 40))"
    by simp
  have five: "get_integral int64_t (- (2 ^ 63)) (2 ^ 63 - 1) (set_double (Finite 5) multinum_clear)
       = (5, True)"
    by (simp add: set_double_def Let_def get_integral_def multinum_clear_def int64_t_def cast_to_def)
  show ?thesis
    using double_only_fails_integral_get [OF l, of int64_t "- (2 ^ 63)" "2 ^ 63 - 1"]
      double_only_fails_integral_get [OF l, of uint64_t 0 "2 ^ 64 - 1"]
      double_only_fails_integral_get [OF l2, of int32_t "- (2 ^ 31)" "2 ^ 31 - 1"]
      l w five
    by simp
qed

section \<open>The aborted state of the tokenizer\<close>

lemma aborted_process_char:
  "m_state tk = ABORTED_DUE_TO_ERROR \<Longrightarrow>
   process_char parse ch tk
     = Some (C_ERROR, tk\<lparr>m_last_process_ret := C_ERROR,
                          m_raw_token := m_raw_token tk @ [m_prev_char tk], m_prev_char := ch\<rparr>)"
  by (simp add: process_char_def internal_process_char_def process_char_internal_def)

lemma aborted_process_eof:
  "m_state tk = ABORTED_DUE_TO_ERROR \<Longrightarrow>
   process_eof parse tk
     = Some (C_ERROR, tk\<lparr>m_last_process_ret := C_ERROR,
                          m_raw_token := m_raw_token tk @ [m_prev_char tk],
                          m_state := REACHED_EOF\<rparr>)"
  by (simp add: process_eof_def internal_process_eof_def process_char_internal_def)

lemma reached_eof_process_eof:
  "m_state tk = REACHED_EOF \<Longrightarrow>
   process_eof parse tk = Some (C_NOTHING_MORE, tk\<lparr>m_last_process_ret := C_NOTHING_MORE\<rparr>)"
  by (simp add: process_eof_def internal_process_eof_def)

lemma reached_eof_process_char:
  "m_state tk = REACHED_EOF \<Longrightarrow>
   process_char parse ch tk = Some (C_NOTHING_MORE, tk\<lparr>m_last_process_ret := C_NOTHING_MORE\<rparr>)"
  by (simp add: process_char_def internal_process_char_def)

lemma slash_aborts:
  "ch \<noteq> c32 CHR ''*'' \<Longrightarrow> ch \<noteq> c32 CHR ''/'' \<Longrightarrow> m_state tk = IDLING
   \<Longrightarrow> m_prev_char tk = c32 CHR ''/''
   \<Longrightarrow> \<exists>tk'. process_char parse ch tk = Some (C_ERROR, tk') \<and> m_state tk' = ABORTED_DUE_TO_ERROR"
  by (simp add: process_char_def internal_process_char_def process_char_internal_def
      tok_clear_def c32_def)

text \<open>C8, evaluated on the input \<^verbatim>\<open>/x\<close>. The tokenizer built on the first character
  \<^verbatim>\<open>/\<close> reports \<^verbatim>\<open>C_ERROR\<close> at \<^verbatim>\<open>process_char('x')\<close> and is then in
  \<^verbatim>\<open>ABORTED_DUE_TO_ERROR\<close>. A following \<^verbatim>\<open>process_eof\<close> returns \<^verbatim>\<open>C_ERROR\<close> but
  overwrites the state with \<^verbatim>\<open>REACHED_EOF\<close>, so every later call returns
  \<^verbatim>\<open>C_NOTHING_MORE\<close>. The same on the source \<^verbatim>\<open>/x\<close> with \<^verbatim>\<open>fetch_token\<close>: error,
  error, then \<^verbatim>\<open>C_NOTHING_MORE\<close>.\<close>

theorem aborted_state_lost_at_eof:
  "(\<exists>tk. process_char parse (c32 CHR ''x'') (json_tokenizer (c32 CHR ''/'') 0) = Some (C_ERROR, tk)
        \<and> m_state tk = ABORTED_DUE_TO_ERROR)
   \<and> run_calls parse [ProcessChar (c32 CHR ''x''), ProcessEof, ProcessEof, ProcessChar (c32 CHR ''y'')]
         (json_tokenizer (c32 CHR ''/'') 0)
       = Some [C_ERROR, C_ERROR, C_NOTHING_MORE, C_NOTHING_MORE]
   \<and> (case json_tokenizer_sourced parse (u32str ''/x'') 0 of
         None \<Rightarrow> None
       | Some ts \<Rightarrow> run_fetches parse 3 ts)
       = Some [C_ERROR, C_ERROR, C_NOTHING_MORE]"
proof -
  obtain tk1 where 1: "process_char parse (c32 CHR ''x'') (json_tokenizer (c32 CHR ''/'') 0)
                         = Some (C_ERROR, tk1)"
    and s1: "m_state tk1 = ABORTED_DUE_TO_ERROR"
    using slash_aborts [of "c32 CHR ''x''" "json_tokenizer (c32 CHR ''/'') 0" parse]
    by (auto simp add: c32_def json_tokenizer_def tok_clear_def)
  obtain tk2 where 2: "process_eof parse tk1 = Some (C_ERROR, tk2)"
    and s2: "m_state tk2 = REACHED_EOF"
    using aborted_process_eof [OF s1, of parse] by simp
  obtain tk3 where 3: "process_eof parse tk2 = Some (C_NOTHING_MORE, tk3)"
    and s3: "m_state tk3 = REACHED_EOF"
    using reached_eof_process_eof [OF s2, of parse] s2 by simp
  obtain tk4 where 4: "process_char parse (c32 CHR ''y'') tk3 = Some (C_NOTHING_MORE, tk4)"
    using reached_eof_process_char [OF s3, of parse] by simp
  have calls: "run_calls parse
         [ProcessChar (c32 CHR ''x''), ProcessEof, ProcessEof, ProcessChar (c32 CHR ''y'')]
         (json_tokenizer (c32 CHR ''/'') 0)
       = Some [C_ERROR, C_ERROR, C_NOTHING_MORE, C_NOTHING_MORE]"
    by (simp add: 1 2 3 4)
  have fetches: "(case json_tokenizer_sourced parse (u32str ''/x'') 0 of
         None \<Rightarrow> None
       | Some ts \<Rightarrow> run_fetches parse 3 ts)
       = Some [C_ERROR, C_ERROR, C_NOTHING_MORE]"
    by (simp add: json_tokenizer_sourced_def u32str_def numeral_3_eq_3 fetch_token.simps
        fetch_step_def internal_process_char_def json_tokenizer_def tok_clear_def
        process_char_internal_def c32_def NUMBERS_IN_STRINGS_def internal_process_eof_def)
  show ?thesis using 1 s1 calls fetches by blast
qed

section \<open>Null values of struct fields in the JSON decoder\<close>





section \<open>Strings of 32-bit characters in the binary codec\<close>

text \<open>C1, evaluated on the two-character string U+00E9 U+0061. The encoder writes the
  byte length 3 and the bytes \<open>C3 A9 61\<close>. The decoder returns the one-character string
  U+00E9: after the two-byte sequence the loop counter is advanced by
  \<^verbatim>\<open>extra_chars+1\<close> and then again by the loop's \<^verbatim>\<open>i++\<close>, so the loop ends with the
  byte \<open>61\<close> still unread in the source.\<close>

theorem u32string_roundtrip_fails:
  "enc_output (encode_u32string [0xE9, 0x61] new_enc) = [3, 0, 0, 0, 0xC3, 0xA9, 0x61]
   \<and> decode_u32string (new_dec [3, 0, 0, 0, 0xC3, 0xA9, 0x61])
       = Inr ([0xE9], \<lparr>m_input = [0x61], m_offset = 6, m_stack = []\<rparr>)"
  by code_simp

section \<open>Forward compatibility of extensible structs\<close>

lemma label_info_bits:
  fixes i :: u32
  assumes "32 \<le> k" and "k < 64"
  shows "ucast ((((if b then 2 ^ k else 0) OR ucast i) :: u64) AND mask k) = i"
    and "((((if b then 2 ^ k else 0) OR ucast i) :: u64) AND 2 ^ k = 2 ^ k) = b"
proof -
  show "ucast ((((if b then 2 ^ k else 0) OR ucast i) :: u64) AND mask k) = i"
    using assms by (intro bit_word_eqI) (auto simp add: bit_simps)
  have "\<not> bit (ucast i :: u64) k"
    using assms by (auto simp add: bit_simps dest: bit_imp_le_length)
  moreover have "bit (2 ^ k :: u64) k"
    using assms by (simp add: bit_simps)
  ultimately have "(ucast i :: u64) AND 2 ^ k \<noteq> 2 ^ k"
    by (metis bit_and_iff)
  moreover have "(2 ^ k OR ucast i :: u64) AND 2 ^ k = 2 ^ k"
    by (intro bit_word_eqI) (auto simp add: bit_simps)
  ultimately show "((((if b then 2 ^ k else 0) OR ucast i) :: u64) AND 2 ^ k = 2 ^ k) = b"
    by simp
qed

lemma label_info_to_id_calc [simp]:
  "marshal_label_info_to_id (marshal_label_info_calc i b) = i"
  using label_info_bits(1) [of 32 b i]
  by (cases b)
     (simp_all add: marshal_label_info_to_id_def marshal_label_info_calc_def
        marshal_label_info_optional_flag_def mask_eq_exp_minus_1)

lemma label_info_is_optional_calc [simp]:
  "marshal_label_info_is_optional (marshal_label_info_calc i b) = b"
  using label_info_bits(2) [of 32 b i]
  by (cases b)
     (simp_all add: marshal_label_info_is_optional_def marshal_label_info_calc_def
        marshal_label_info_optional_flag_def)

lemma write_bytes_at_end:
  "enc_curr_pos e = length (enc_output e) \<Longrightarrow>
   write_bytes bs e = e\<lparr>enc_output := enc_output e @ bs,
                        enc_curr_pos := length (enc_output e) + length bs\<rparr>"
  by (simp add: write_bytes_def)











section \<open>Fixed notation of floating point numbers\<close>

lemma round_half_even_below_half:
  assumes "of_int k \<le> x" and "x < of_int k + 1 / 2"
  shows "round_half_even x = k"
proof -
  have "\<lfloor>x\<rfloor> = k"
    using assms by (intro floor_unique) simp_all
  thus ?thesis
    using assms by (simp add: round_half_even_def Let_def)
qed

lemma fixed_text:
  assumes "of_int (int n) \<le> \<bar>v\<bar> * 10 ^ 17" and "\<bar>v\<bar> * 10 ^ 17 < of_int (int n) + 1 / 2"
    and "0 \<le> v"
  shows "json_encode_f64 v new_enc_json
     = Inr \<lparr>enc_json_out = decimal_digits (n div 10 ^ 17) @ ''.'' @ fraction_digits 17 (n mod 10 ^ 17),
            enc_json_is_typed = False\<rparr>"
  using round_half_even_below_half [OF assms(1,2)] assms(3)
  by (simp add: json_encode_f64_def new_enc_json_def ostream_fixed_def max_digits10_def Let_def)

lemma fraction_digits_numeral:
  "fraction_digits (numeral k) n
     = fraction_digits (pred_numeral k) (n div 10) @ [digit_char (n mod 10)]"
  unfolding numeral_eq_Suc [of k] by (rule fraction_digits.simps)

lemma fixed_digits_of_zero:
  "decimal_digits (0 div 10 ^ 17) @ ''.'' @ fraction_digits 17 (0 mod 10 ^ 17) = ''0.00000000000000000''"
  by (simp add: decimal_digits.simps digit_char_def fraction_digits_numeral)

lemma fixed_digits_near_2_pow_minus_10:
  "decimal_digits (97656250000000 div 10 ^ 17) @ ''.'' @ fraction_digits 17 (97656250000000 mod 10 ^ 17) = ''0.00097656250000000''"
  by (simp add: decimal_digits.simps digit_char_def fraction_digits_numeral)

text \<open>C9, evaluated on finite doubles that the fixed notation does not tell apart. With
  17 digits after the point the double \<open>2^-70\<close> is written as the text of zero, and the
  neighbouring doubles \<open>2^-10\<close> and \<open>2^-10 + 2^-62\<close> are written as the same text, so
  no reader can recover each of them from the text.\<close>

theorem encode_f64_fixed_notation_collides:
  "json_encode_f64 (1 / 2 ^ 70) new_enc_json
     = Inr \<lparr>enc_json_out = ''0.00000000000000000'', enc_json_is_typed = False\<rparr>
   \<and> json_encode_f64 0 new_enc_json
     = Inr \<lparr>enc_json_out = ''0.00000000000000000'', enc_json_is_typed = False\<rparr>
   \<and> json_encode_f64 (1 / 1024) new_enc_json
     = Inr \<lparr>enc_json_out = ''0.00097656250000000'', enc_json_is_typed = False\<rparr>
   \<and> json_encode_f64 (1 / 1024 + 1 / 2 ^ 62) new_enc_json
     = Inr \<lparr>enc_json_out = ''0.00097656250000000'', enc_json_is_typed = False\<rparr>"
proof -
  have a: "json_encode_f64 (1 / 2 ^ 70) new_enc_json
     = Inr \<lparr>enc_json_out = ''0.00000000000000000'', enc_json_is_typed = False\<rparr>"
    using fixed_text [of 0 "1 / 2 ^ 70"] fixed_digits_of_zero by simp
  have b: "json_encode_f64 0 new_enc_json
     = Inr \<lparr>enc_json_out = ''0.00000000000000000'', enc_json_is_typed = False\<rparr>"
    using fixed_text [of 0 0] fixed_digits_of_zero by simp
  have c: "json_encode_f64 (1 / 1024) new_enc_json
     = Inr \<lparr>enc_json_out = ''0.00097656250000000'', enc_json_is_typed = False\<rparr>"
    using fixed_text [of 97656250000000 "1 / 1024"] fixed_digits_near_2_pow_minus_10 by simp
  have d: "json_encode_f64 (1 / 1024 + 1 / 2 ^ 62) new_enc_json
     = Inr \<lparr>enc_json_out = ''0.00097656250000000'', enc_json_is_typed = False\<rparr>"
    using fixed_text [of 97656250000000 "1 / 1024 + 1 / 2 ^ 62"] fixed_digits_near_2_pow_minus_10 by simp
  show ?thesis using a b c d by blast
qed

end
